theory Spec2Isabelle
  imports Main "HOL-Library.Word" "HOL-Library.Monad_Syntax"
begin

section \<open>The networked monitor: data model\<close>

text \<open>
  Modelled from the spec: the declaration of \<^verbatim>\<open>struct sensor_value\<close> is not in the
  repository; it comes with Zephyr's sensor API. The spec describes each field of a
  reading as a numeric pair, integer part and fractional micro-units, and
  \<open>handle_client\<close> prints both members with \<^verbatim>\<open>%d\<close>, so they are C ints; Zephyr
  declares them \<^verbatim>\<open>int32_t val1\<close> and \<^verbatim>\<open>int32_t val2\<close>.
  \<^verbatim>\<open>struct sensor_reading\<close> (sensor_manager.h) holds three such pairs.
\<close>

type_synonym int32 = "32 word"

record sensor_value =
  val1 :: int32
  val2 :: int32

record sensor_reading =
  temp :: sensor_value
  press :: sensor_value
  humidity :: sensor_value

text \<open>
  \<^verbatim>\<open>struct sensor_reading latest_reading;\<close> in main.c is a global without an
  initialiser, so it starts with every field zero.
\<close>

definition zero_value :: sensor_value where
  "zero_value = \<lparr>val1 = 0, val2 = 0\<rparr>"

definition zero_reading :: sensor_reading where
  "zero_reading = \<lparr>temp = zero_value, press = zero_value, humidity = zero_value\<rparr>"

section \<open>The C library functions the handler uses\<close>

subsection \<open>Decimal conversions of printf\<close>

definition digit_char :: "nat \<Rightarrow> char" where
  "digit_char d = ''0123456789'' ! d"

text \<open>The decimal digits of a natural number, without leading zeros (\<open>0\<close> is \<open>''0''\<close>).\<close>

function digits :: "nat \<Rightarrow> string" where
  "digits n = (if n < 10 then [digit_char n] else digits (n div 10) @ [digit_char (n mod 10)])"
  by pat_completeness auto
termination
  by (relation "measure (\<lambda>n. n)") auto

declare digits.simps [simp del]

text \<open>\<^verbatim>\<open>%d\<close>: a minus sign for a negative value, then the digits.\<close>

definition fmt_d :: "int \<Rightarrow> string" where
  "fmt_d i = (if i < 0 then ''-'' @ digits (nat (- i)) else digits (nat i))"

definition zero_pad :: "nat \<Rightarrow> string \<Rightarrow> string" where
  "zero_pad w s = replicate (w - length s) (CHR ''0'') @ s"

text \<open>
  \<^verbatim>\<open>%06d\<close>: minimum field width 6, padded with zeros between the sign and the
  digits; the sign counts towards the width, and a longer number is printed in full.
\<close>

definition fmt_06d :: "int \<Rightarrow> string" where
  "fmt_06d i = (if i < 0 then ''-'' @ zero_pad 5 (digits (nat (- i))) else zero_pad 6 (digits (nat i)))"

subsection \<open>snprintf into a fixed buffer, strlen\<close>

text \<open>
  \<^verbatim>\<open>snprintf(buf, n, ...)\<close> stores at most \<open>n - 1\<close> characters of the
  formatted output and a terminating NUL. The model is the buffer's content up to that
  terminator; \<open>out\<close> is the complete formatted output.
\<close>

definition snprintf :: "nat \<Rightarrow> string \<Rightarrow> string" where
  "snprintf n out = take (n - 1) out"

text \<open>\<^verbatim>\<open>strlen\<close>: the number of characters before the first NUL.\<close>

definition strlen :: "string \<Rightarrow> nat" where
  "strlen s = length (takeWhile (\<lambda>c. c \<noteq> CHR 0x00) s)"

section \<open>web_server.c\<close>

definition CRLF :: string where
  "CRLF = [CHR 0x0D, CHR 0x0A]"

text \<open>One \<^verbatim>\<open>%d.%06d\<close> conversion pair applied to a \<open>sensor_value\<close>.\<close>

definition fmt_value :: "sensor_value \<Rightarrow> string" where
  "fmt_value v = fmt_d (sint (val1 v)) @ ''.'' @ fmt_06d (sint (val2 v))"

definition http_200_head :: string where
  "http_200_head = ''HTTP/1.1 200 OK'' @ CRLF @ ''Content-Type: text/html'' @ CRLF @ CRLF"

definition html_body :: "sensor_reading \<Rightarrow> string" where
  "html_body d =
     ''<html><head><title>Weather Station</title></head>'' @
     ''<body><h1>Weather Station</h1>'' @
     ''<p>Temperature: '' @ fmt_value (temp d) @ '' C</p>'' @
     ''<p>Pressure: '' @ fmt_value (press d) @ '' kPa</p>'' @
     ''<p>Humidity: '' @ fmt_value (humidity d) @ '' %</p>'' @
     ''</body></html>''"

text \<open>The complete output of the format string of \<open>handle_client\<close> for \<open>data\<close>.\<close>

definition format_response :: "sensor_reading \<Rightarrow> string" where
  "format_response d = http_200_head @ html_body d"

definition error_response :: string where
  "error_response = ''HTTP/1.1 503 Service Unavailable'' @ CRLF @ CRLF"

text \<open>
  The calls a thread makes to the kernel, the network stack, the sensor driver and the
  logger, in the order it makes them. Return values are inputs of the model.
\<close>

datatype channel = SENSOR_CHAN_AMBIENT_TEMP | SENSOR_CHAN_PRESS | SENSOR_CHAN_HUMIDITY

datatype event =
    K_mutex_lock nat
  | K_mutex_unlock
  | Send int string
  | Close int
  | Socket
  | Bind int nat
  | Listen int nat
  | Accept int
  | Log_inf string
  | Log_err string
  | Sensor_sample_fetch
  | Sensor_channel_get channel
  | K_sleep nat

record world =
  latest_reading :: sensor_reading
  trace :: "event list"

definition emit :: "event \<Rightarrow> world \<Rightarrow> world" where
  "emit e w = w\<lparr>trace := trace w @ [e]\<rparr>"

text \<open>
  \<open>handle_client\<close>. \<open>lock_rc\<close> is what \<^verbatim>\<open>k_mutex_lock(&data_mutex, K_MSEC(500))\<close>
  returns (0 when the mutex was taken, an error code when the wait timed out) and
  \<open>send_rc\<close> what \<^verbatim>\<open>send\<close> returns, which the code never looks at.
\<close>

definition handle_client :: "int \<Rightarrow> int \<Rightarrow> int \<Rightarrow> world \<Rightarrow> world" where
  "handle_client lock_rc send_rc client w =
     (let w1 = emit (K_mutex_lock 500) w in
      if lock_rc = 0 then
        (let data = latest_reading w1;
             w2 = emit K_mutex_unlock w1;
             response = snprintf 256 (format_response data);
             w3 = emit (Send client (take (strlen response) response)) w2
         in emit (Close client) w3)
      else
        (let w2 = emit (Send client (take (strlen error_response) error_response)) w1
         in emit (Close client) w2))"

text \<open>Whether an event is a \<^verbatim>\<open>close\<close> of some connection.\<close>

fun is_close :: "event \<Rightarrow> bool" where
  "is_close (Close c) = True"
| "is_close _ = False"

section \<open>The accept loop of web_server.c\<close>

text \<open>
  A thread function either returns or is still inside its \<^verbatim>\<open>while (1)\<close> loop after the
  passes it was given input for.
\<close>

datatype 'a outcome = Returned 'a | Running 'a

fun the_world :: "world outcome \<Rightarrow> world" where
  "the_world (Returned w) = w"
| "the_world (Running w) = w"

fun is_running :: "'a outcome \<Rightarrow> bool" where
  "is_running (Running w) = True"
| "is_running (Returned w) = False"

definition WEB_SERVER_PORT :: nat where
  "WEB_SERVER_PORT = 80"

text \<open>
  What the environment returns during one pass of the loop: the result of \<^verbatim>\<open>accept\<close>
  and, for the handler, the results of \<^verbatim>\<open>k_mutex_lock\<close> and \<^verbatim>\<open>send\<close>.
\<close>

record accept_in =
  accept_rc :: int
  client_lock_rc :: int
  client_send_rc :: int

definition web_server_iteration :: "int \<Rightarrow> accept_in \<Rightarrow> world \<Rightarrow> world" where
  "web_server_iteration server_sock i w =
     (let client_sock = accept_rc i;
          w1 = emit (Accept server_sock) w
      in if 0 \<le> client_sock then handle_client (client_lock_rc i) (client_send_rc i) client_sock w1
         else w1)"

fun web_server_loop :: "int \<Rightarrow> accept_in list \<Rightarrow> world \<Rightarrow> world" where
  "web_server_loop server_sock [] w = w"
| "web_server_loop server_sock (i # rest) w =
     web_server_loop server_sock rest (web_server_iteration server_sock i w)"

text \<open>
  \<open>web_server_thread\<close>. The results of \<^verbatim>\<open>socket\<close>, \<^verbatim>\<open>bind\<close> and \<^verbatim>\<open>listen\<close> are
  inputs; the first becomes \<open>server_sock\<close>, the other two are dropped by the code. The
  loop has no exit, so the outcome is \<open>Running\<close> after any number of passes.
\<close>

definition web_server_thread :: "int \<Rightarrow> int \<Rightarrow> int \<Rightarrow> accept_in list \<Rightarrow> world \<Rightarrow> world outcome" where
  "web_server_thread socket_rc bind_rc listen_rc ins w =
     (let server_sock = socket_rc;
          w1 = emit Socket w;
          w2 = emit (Bind server_sock WEB_SERVER_PORT) w1;
          w3 = emit (Listen server_sock 5) w2;
          w4 = emit (Log_inf (''Web server listening on port '' @ fmt_d (int WEB_SERVER_PORT))) w3
      in Running (web_server_loop server_sock ins w4))"

section \<open>sensor_manager.c\<close>

text \<open>
  What the environment does during one sampling cycle: for each channel, the value
  \<^verbatim>\<open>sensor_channel_get\<close> stores, or \<open>None\<close> when the call fails and leaves the field of
  \<open>data\<close> as it was; and the result of \<^verbatim>\<open>k_mutex_lock\<close>.
\<close>

record cycle_in =
  temp_sample :: "sensor_value option"
  press_sample :: "sensor_value option"
  humidity_sample :: "sensor_value option"
  cycle_lock_rc :: int

definition sensor_channel_get :: "sensor_value option \<Rightarrow> sensor_value \<Rightarrow> sensor_value" where
  "sensor_channel_get r old = (case r of None \<Rightarrow> old | Some v \<Rightarrow> v)"

text \<open>One pass of the loop of \<open>sensor_thread\<close>, on its local \<open>data\<close> and the world.\<close>

definition sensor_cycle :: "cycle_in \<Rightarrow> sensor_reading \<times> world \<Rightarrow> sensor_reading \<times> world" where
  "sensor_cycle i s =
     (let data = fst s;
          w1 = emit Sensor_sample_fetch (snd s);
          data1 = data\<lparr>temp := sensor_channel_get (temp_sample i) (temp data)\<rparr>;
          w2 = emit (Sensor_channel_get SENSOR_CHAN_AMBIENT_TEMP) w1;
          data2 = data1\<lparr>press := sensor_channel_get (press_sample i) (press data1)\<rparr>;
          w3 = emit (Sensor_channel_get SENSOR_CHAN_PRESS) w2;
          data3 = data2\<lparr>humidity := sensor_channel_get (humidity_sample i) (humidity data2)\<rparr>;
          w4 = emit (Sensor_channel_get SENSOR_CHAN_HUMIDITY) w3;
          w5 = emit (K_mutex_lock 500) w4;
          w6 = (if cycle_lock_rc i = 0 then emit K_mutex_unlock (w5\<lparr>latest_reading := data3\<rparr>) else w5)
      in (data3, emit (K_sleep 5000) w6))"

fun sensor_loop :: "cycle_in list \<Rightarrow> sensor_reading \<times> world \<Rightarrow> sensor_reading \<times> world" where
  "sensor_loop [] s = s"
| "sensor_loop (i # rest) s = sensor_loop rest (sensor_cycle i s)"

text \<open>
  \<open>sensor_thread\<close>. \<open>ready\<close> is the result of \<^verbatim>\<open>device_is_ready(bme280)\<close> and \<open>data0\<close>
  what the uninitialised local \<open>data\<close> holds on entry.
\<close>

definition sensor_thread :: "bool \<Rightarrow> sensor_reading \<Rightarrow> cycle_in list \<Rightarrow> world \<Rightarrow> world outcome" where
  "sensor_thread ready data0 ins w =
     (if \<not> ready then Returned (emit (Log_err ''BME280 device not ready'') w)
      else Running (snd (sensor_loop ins (data0, w))))"

section \<open>The two threads running together\<close>

text \<open>
  main.c starts \<open>sensor_thread\<close> and \<open>web_server_thread\<close> at the same priority; they
  share \<open>latest_reading\<close> and \<open>data_mutex\<close>. The model is a step function: a schedule
  names, step by step, the thread that moves and the inputs it may consume. Every access
  to the shared variables is a step of its own. A structure assignment is six word
  copies, in the order of the fields, and the other thread may run between any two of
  them. \<^verbatim>\<open>k_mutex_lock\<close> with a timeout takes a free mutex at once; when the other
  thread holds it, the caller either keeps waiting (the step changes nothing) or the wait
  times out (\<open>in_timeout\<close>); time itself is not modelled, so a timeout may come at any
  moment while the mutex is held. Neither thread asks for the mutex while it holds it
  (\<open>lock_never_recursive\<close> below). Calls that touch only locals are not split: the four
  set-up calls of \<open>web_server_thread\<close> are one step, and so are the fetch and the three
  channel reads of the sampler.
\<close>

datatype thread = Sensor | Web

datatype sensor_pc = S_start | S_fetch | S_lock | S_copy nat | S_unlock | S_sleep | S_returned

datatype web_pc = W_start | W_accept | W_lock | W_copy nat | W_unlock | W_send | W_send_503 | W_close

text \<open>
  What a step leaves in the log: \<open>Sampled d\<close>, the sampler's \<open>data\<close> after the fetch and
  the three channel reads; \<open>Locked t\<close> and \<open>Timed_out t\<close>, the two ways
  \<^verbatim>\<open>k_mutex_lock\<close> returns in thread \<open>t\<close>; \<open>Unlocked t r\<close>, \<^verbatim>\<open>k_mutex_unlock\<close> in
  thread \<open>t\<close> whose local \<open>data\<close> is \<open>r\<close> at that moment; \<open>Call e\<close>, any other call.
\<close>

datatype action =
    Sampled sensor_reading
  | Locked thread
  | Timed_out thread
  | Unlocked thread sensor_reading
  | Call event

record sys =
  shared :: sensor_reading
  data_mutex :: "thread option"
  s_pc :: sensor_pc
  s_data :: sensor_reading
  w_pc :: web_pc
  w_data :: sensor_reading
  w_sock :: int
  w_client :: int
  log :: "action list"

record input =
  in_sample :: "sensor_value option \<times> sensor_value option \<times> sensor_value option"
  in_timeout :: bool
  in_socket :: int
  in_accept :: int

text \<open>The six 32-bit words of a reading, in the order of the fields.\<close>

definition get_word :: "nat \<Rightarrow> sensor_reading \<Rightarrow> int32" where
  "get_word k r =
     (if k = 0 then val1 (temp r) else if k = 1 then val2 (temp r)
      else if k = 2 then val1 (press r) else if k = 3 then val2 (press r)
      else if k = 4 then val1 (humidity r) else val2 (humidity r))"

definition set_word :: "nat \<Rightarrow> int32 \<Rightarrow> sensor_reading \<Rightarrow> sensor_reading" where
  "set_word k v r =
     (if k = 0 then r\<lparr>temp := (temp r)\<lparr>val1 := v\<rparr>\<rparr>
      else if k = 1 then r\<lparr>temp := (temp r)\<lparr>val2 := v\<rparr>\<rparr>
      else if k = 2 then r\<lparr>press := (press r)\<lparr>val1 := v\<rparr>\<rparr>
      else if k = 3 then r\<lparr>press := (press r)\<lparr>val2 := v\<rparr>\<rparr>
      else if k = 4 then r\<lparr>humidity := (humidity r)\<lparr>val1 := v\<rparr>\<rparr>
      else r\<lparr>humidity := (humidity r)\<lparr>val2 := v\<rparr>\<rparr>)"

definition copy_word :: "nat \<Rightarrow> sensor_reading \<Rightarrow> sensor_reading \<Rightarrow> sensor_reading" where
  "copy_word k src dst = set_word k (get_word k src) dst"

definition log_action :: "action \<Rightarrow> sys \<Rightarrow> sys" where
  "log_action a s = s\<lparr>log := log s @ [a]\<rparr>"

text \<open>Lines 24 to 27 of sensor_manager.c on the local \<open>data\<close>.\<close>

definition fetch :: "sensor_value option \<times> sensor_value option \<times> sensor_value option
    \<Rightarrow> sensor_reading \<Rightarrow> sensor_reading" where
  "fetch smp data =
     \<lparr>temp = sensor_channel_get (fst smp) (temp data),
      press = sensor_channel_get (fst (snd smp)) (press data),
      humidity = sensor_channel_get (snd (snd smp)) (humidity data)\<rparr>"

definition sensor_step :: "bool \<Rightarrow> input \<Rightarrow> sys \<Rightarrow> sys" where
  "sensor_step ready i s =
     (case s_pc s of
        S_start \<Rightarrow>
          if \<not> ready then (log_action (Call (Log_err ''BME280 device not ready'')) s)\<lparr>s_pc := S_returned\<rparr>
          else s\<lparr>s_pc := S_fetch\<rparr>
      | S_fetch \<Rightarrow>
          (log_action (Sampled (fetch (in_sample i) (s_data s))) s)
            \<lparr>s_data := fetch (in_sample i) (s_data s), s_pc := S_lock\<rparr>
      | S_lock \<Rightarrow>
          (case data_mutex s of
             None \<Rightarrow> (log_action (Locked Sensor) s)\<lparr>data_mutex := Some Sensor, s_pc := S_copy 0\<rparr>
           | Some t \<Rightarrow>
               if in_timeout i then (log_action (Timed_out Sensor) s)\<lparr>s_pc := S_sleep\<rparr> else s)
      | S_copy k \<Rightarrow>
          s\<lparr>shared := copy_word k (s_data s) (shared s),
            s_pc := (if k < 5 then S_copy (Suc k) else S_unlock)\<rparr>
      | S_unlock \<Rightarrow> (log_action (Unlocked Sensor (s_data s)) s)\<lparr>data_mutex := None, s_pc := S_sleep\<rparr>
      | S_sleep \<Rightarrow> (log_action (Call (K_sleep 5000)) s)\<lparr>s_pc := S_fetch\<rparr>
      | S_returned \<Rightarrow> s)"

definition web_step :: "input \<Rightarrow> sys \<Rightarrow> sys" where
  "web_step i s =
     (case w_pc s of
        W_start \<Rightarrow>
          (log_action (Call (Log_inf (''Web server listening on port '' @ fmt_d (int WEB_SERVER_PORT))))
            (log_action (Call (Listen (in_socket i) 5))
              (log_action (Call (Bind (in_socket i) WEB_SERVER_PORT))
                (log_action (Call Socket) s))))
            \<lparr>w_sock := in_socket i, w_pc := W_accept\<rparr>
      | W_accept \<Rightarrow>
          if 0 \<le> in_accept i
          then (log_action (Call (Accept (w_sock s))) s)\<lparr>w_client := in_accept i, w_pc := W_lock\<rparr>
          else log_action (Call (Accept (w_sock s))) s
      | W_lock \<Rightarrow>
          (case data_mutex s of
             None \<Rightarrow> (log_action (Locked Web) s)\<lparr>data_mutex := Some Web, w_pc := W_copy 0\<rparr>
           | Some t \<Rightarrow>
               if in_timeout i then (log_action (Timed_out Web) s)\<lparr>w_pc := W_send_503\<rparr> else s)
      | W_copy k \<Rightarrow>
          s\<lparr>w_data := copy_word k (shared s) (w_data s),
            w_pc := (if k < 5 then W_copy (Suc k) else W_unlock)\<rparr>
      | W_unlock \<Rightarrow> (log_action (Unlocked Web (w_data s)) s)\<lparr>data_mutex := None, w_pc := W_send\<rparr>
      | W_send \<Rightarrow>
          (let response = snprintf 256 (format_response (w_data s))
           in (log_action (Call (Send (w_client s) (take (strlen response) response))) s)\<lparr>w_pc := W_close\<rparr>)
      | W_send_503 \<Rightarrow>
          (log_action (Call (Send (w_client s) (take (strlen error_response) error_response))) s)
            \<lparr>w_pc := W_close\<rparr>
      | W_close \<Rightarrow> (log_action (Call (Close (w_client s))) s)\<lparr>w_pc := W_accept\<rparr>)"

fun step :: "bool \<Rightarrow> thread \<times> input \<Rightarrow> sys \<Rightarrow> sys" where
  "step ready (Sensor, i) s = sensor_step ready i s"
| "step ready (Web, i) s = web_step i s"

fun run :: "bool \<Rightarrow> (thread \<times> input) list \<Rightarrow> sys \<Rightarrow> sys" where
  "run ready [] s = s"
| "run ready (m # sched) s = run ready sched (step ready m s)"

text \<open>
  The state main.c starts from: \<open>latest_reading\<close> zero, the mutex free, both threads at
  their first line. The locals are uninitialised and may hold anything.
\<close>

definition initial :: "sys \<Rightarrow> bool" where
  "initial s =
     (shared s = zero_reading \<and> data_mutex s = None \<and> s_pc s = S_start \<and> w_pc s = W_start \<and>
      log s = [])"

text \<open>The calls behind a log entry, as the sequential functions record them.\<close>

fun calls :: "action \<Rightarrow> event list" where
  "calls (Sampled d) =
     [Sensor_sample_fetch, Sensor_channel_get SENSOR_CHAN_AMBIENT_TEMP,
      Sensor_channel_get SENSOR_CHAN_PRESS, Sensor_channel_get SENSOR_CHAN_HUMIDITY]"
| "calls (Locked t) = [K_mutex_lock 500]"
| "calls (Timed_out t) = [K_mutex_lock 500]"
| "calls (Unlocked t r) = [K_mutex_unlock]"
| "calls (Call e) = [e]"

text \<open>
  The reading the sampler published last, going by the log: the \<open>data\<close> of its latest
  unlock, or the zero reading when it has not published yet.
\<close>

fun publish :: "sensor_reading \<Rightarrow> action \<Rightarrow> sensor_reading" where
  "publish p (Unlocked Sensor d) = d"
| "publish p a = p"

definition last_published :: "action list \<Rightarrow> sensor_reading" where
  "last_published l = foldl publish zero_reading l"

section \<open>Readings used in the statements\<close>

text \<open>A fractional part that lies in the six-digit range.\<close>

definition fraction_in_range :: "sensor_value \<Rightarrow> bool" where
  "fraction_in_range v = (0 \<le> sint (val2 v) \<and> sint (val2 v) \<le> 999999)"

definition fractions_in_range :: "sensor_reading \<Rightarrow> bool" where
  "fractions_in_range d =
     (fraction_in_range (temp d) \<and> fraction_in_range (press d) \<and> fraction_in_range (humidity d))"

text \<open>The reading 23.456000 C, 101.325000 kPa, 45.120000 %.\<close>

definition example_reading :: sensor_reading where
  "example_reading =
     \<lparr>temp = \<lparr>val1 = 23, val2 = 456000\<rparr>,
      press = \<lparr>val1 = 101, val2 = 325000\<rparr>,
      humidity = \<lparr>val1 = 45, val2 = 120000\<rparr>\<rparr>"

text \<open>The reading whose six fields all hold the least 32-bit value, \<open>-2147483648\<close>.\<close>

definition min_reading :: sensor_reading where
  "min_reading =
     \<lparr>temp = \<lparr>val1 = 0x80000000, val2 = 0x80000000\<rparr>,
      press = \<lparr>val1 = 0x80000000, val2 = 0x80000000\<rparr>,
      humidity = \<lparr>val1 = 0x80000000, val2 = 0x80000000\<rparr>\<rparr>"

section \<open>Reading the decimal pairs back out of the body\<close>

text \<open>
  Modelled from the spec: the repository has no parser. The round-trip property of the
  spec speaks of parsing the three decimal pairs back out of the HTML body; this is that
  parser: it checks the fixed text of the page and reads each number as an optional minus
  sign followed by a non-empty run of decimal digits.
\<close>

definition is_digit :: "char \<Rightarrow> bool" where
  "is_digit c = (c \<in> set ''0123456789'')"

definition digit_val :: "char \<Rightarrow> nat" where
  "digit_val c = of_char c - 48"

definition decimal_value :: "string \<Rightarrow> nat" where
  "decimal_value s = foldl (\<lambda>a c. 10 * a + digit_val c) 0 s"

definition parse_nat :: "string \<Rightarrow> (nat \<times> string) option" where
  "parse_nat s =
     (let ds = takeWhile is_digit s
      in if ds = [] then None else Some (decimal_value ds, dropWhile is_digit s))"

definition parse_int :: "string \<Rightarrow> (int \<times> string) option" where
  "parse_int s =
     (case s of
        [] \<Rightarrow> None
      | c # s' \<Rightarrow>
          if c = CHR ''-'' then map_option (\<lambda>(n, r). (- int n, r)) (parse_nat s')
          else map_option (\<lambda>(n, r). (int n, r)) (parse_nat s))"

fun expect :: "string \<Rightarrow> string \<Rightarrow> string option" where
  "expect [] s = Some s"
| "expect (c # cs) [] = None"
| "expect (c # cs) (x # xs) = (if c = x then expect cs xs else None)"

definition parse_pair :: "string \<Rightarrow> ((int \<times> int) \<times> string) option" where
  "parse_pair s =
     do { (i, s1) \<leftarrow> parse_int s;
          s2 \<leftarrow> expect ''.'' s1;
          (f, s3) \<leftarrow> parse_int s2;
          Some ((i, f), s3) }"

definition parse_body :: "string \<Rightarrow> ((int \<times> int) \<times> (int \<times> int) \<times> (int \<times> int)) option" where
  "parse_body s =
     do { s1 \<leftarrow> expect ''<html><head><title>Weather Station</title></head><body><h1>Weather Station</h1><p>Temperature: '' s;
          (t, s2) \<leftarrow> parse_pair s1;
          s3 \<leftarrow> expect '' C</p><p>Pressure: '' s2;
          (p, s4) \<leftarrow> parse_pair s3;
          s5 \<leftarrow> expect '' kPa</p><p>Humidity: '' s4;
          (h, s6) \<leftarrow> parse_pair s5;
          s7 \<leftarrow> expect '' %</p></body></html>'' s6;
          if s7 = [] then Some (t, p, h) else None }"


text \<open>
  Following the spec's words for one field of the page: the integer part, a dot, and the
  fractional part as six digits, padded with zeros on the left.
\<close>

definition six_digits :: "nat \<Rightarrow> string" where
  "six_digits n = replicate (6 - length (digits n)) (CHR ''0'') @ digits n"

definition decimal_pair :: "sensor_value \<Rightarrow> string" where
  "decimal_pair v = fmt_d (sint (val1 v)) @ ''.'' @ six_digits (nat (sint (val2 v)))"


text \<open>The reading whose six fields all hold the greatest 32-bit value, \<open>2147483647\<close>.\<close>

definition max_reading :: sensor_reading where
  "max_reading =
     \<lparr>temp = \<lparr>val1 = 0x7FFFFFFF, val2 = 0x7FFFFFFF\<rparr>,
      press = \<lparr>val1 = 0x7FFFFFFF, val2 = 0x7FFFFFFF\<rparr>,
      humidity = \<lparr>val1 = 0x7FFFFFFF, val2 = 0x7FFFFFFF\<rparr>\<rparr>"


section \<open>Predicates and examples for the statements\<close>

fun is_accept :: "event \<Rightarrow> bool" where
  "is_accept (Accept s) = True"
| "is_accept e = False"

text \<open>The calls of a handler run and of one pass of the accept loop, written out.\<close>

definition client_events :: "sensor_reading \<Rightarrow> accept_in \<Rightarrow> event list" where
  "client_events d i =
     (if client_lock_rc i = 0
      then [K_mutex_lock 500, K_mutex_unlock, Send (accept_rc i) (take 255 (format_response d)),
            Close (accept_rc i)]
      else [K_mutex_lock 500, Send (accept_rc i) error_response, Close (accept_rc i)])"

definition iteration_events :: "int \<Rightarrow> sensor_reading \<Rightarrow> accept_in \<Rightarrow> event list" where
  "iteration_events server_sock d i =
     Accept server_sock # (if 0 \<le> accept_rc i then client_events d i else [])"

definition accept_example :: "accept_in list" where
  "accept_example =
     [\<lparr>accept_rc = -1, client_lock_rc = 0, client_send_rc = 0\<rparr>,
      \<lparr>accept_rc = 4, client_lock_rc = -11, client_send_rc = 35\<rparr>,
      \<lparr>accept_rc = 5, client_lock_rc = 0, client_send_rc = -1\<rparr>]"

definition accept_failures :: "accept_in list" where
  "accept_failures =
     [\<lparr>accept_rc = -1, client_lock_rc = 0, client_send_rc = 0\<rparr>,
      \<lparr>accept_rc = -1, client_lock_rc = 0, client_send_rc = 0\<rparr>,
      \<lparr>accept_rc = -1, client_lock_rc = 0, client_send_rc = 0\<rparr>]"

text \<open>The invariant of the step model.\<close>

definition agree :: "nat \<Rightarrow> sensor_reading \<Rightarrow> sensor_reading \<Rightarrow> bool" where
  "agree k a b = (\<forall>j<k. get_word j a = get_word j b)"

fun read_ok :: "sensor_reading \<Rightarrow> action \<Rightarrow> bool" where
  "read_ok p (Unlocked Web r) = (r = p)"
| "read_ok p a = True"

fun reads_ok_from :: "sensor_reading \<Rightarrow> action list \<Rightarrow> bool" where
  "reads_ok_from p [] = True"
| "reads_ok_from p (a # l) = (read_ok p a \<and> reads_ok_from (publish p a) l)"

fun holds_s :: "sensor_pc \<Rightarrow> bool" where
  "holds_s (S_copy k) = True"
| "holds_s S_unlock = True"
| "holds_s pc = False"

fun holds_w :: "web_pc \<Rightarrow> bool" where
  "holds_w (W_copy k) = True"
| "holds_w W_unlock = True"
| "holds_w pc = False"

fun writer_inv :: "sensor_pc \<Rightarrow> sys \<Rightarrow> bool" where
  "writer_inv (S_copy k) s = (k \<le> 5 \<and> agree k (shared s) (s_data s))"
| "writer_inv S_unlock s = (shared s = s_data s)"
| "writer_inv pc s = (shared s = last_published (log s))"

fun reader_inv :: "web_pc \<Rightarrow> sys \<Rightarrow> bool" where
  "reader_inv (W_copy k) s = (k \<le> 5 \<and> agree k (w_data s) (shared s))"
| "reader_inv W_unlock s = (w_data s = shared s)"
| "reader_inv pc s = True"

definition sys_inv :: "sys \<Rightarrow> bool" where
  "sys_inv s =
     ((data_mutex s = Some Sensor) = holds_s (s_pc s) \<and>
      (data_mutex s = Some Web) = holds_w (w_pc s) \<and>
      writer_inv (s_pc s) s \<and> reader_inv (w_pc s) s \<and>
      reads_ok_from zero_reading (log s))"

text \<open>The invariant when the sensor is not ready, and what the log may then hold.\<close>

fun unready_ok :: "action \<Rightarrow> bool" where
  "unready_ok (Sampled d) = False"
| "unready_ok (Locked t) = (t = Web)"
| "unready_ok (Timed_out t) = False"
| "unready_ok (Unlocked t r) = (t = Web \<and> r = zero_reading)"
| "unready_ok (Call (Send c b)) = (b = format_response zero_reading)"
| "unready_ok (Call e) = True"

fun unready_s :: "sensor_pc \<Rightarrow> bool" where
  "unready_s S_start = True"
| "unready_s S_returned = True"
| "unready_s pc = False"

fun unready_w :: "web_pc \<Rightarrow> sys \<Rightarrow> bool" where
  "unready_w (W_copy k) s = (k \<le> 5 \<and> agree k (w_data s) zero_reading)"
| "unready_w W_unlock s = (w_data s = zero_reading)"
| "unready_w W_send s = (w_data s = zero_reading)"
| "unready_w W_send_503 s = False"
| "unready_w pc s = True"

definition unready_inv :: "sys \<Rightarrow> bool" where
  "unready_inv s =
     (unready_s (s_pc s) \<and> shared s = zero_reading \<and> data_mutex s \<noteq> Some Sensor \<and>
      (data_mutex s = Some Web) = holds_w (w_pc s) \<and> unready_w (w_pc s) s \<and>
      list_all unready_ok (log s))"

text \<open>A start state with arbitrary values in the locals, and schedules from it.\<close>

definition boot :: sys where
  "boot =
     \<lparr>shared = zero_reading, data_mutex = None, s_pc = S_start, s_data = min_reading,
      w_pc = W_start, w_data = max_reading, w_sock = 0, w_client = 0, log = []\<rparr>"

definition sample_1 :: input where
  "sample_1 =
     \<lparr>in_sample = (Some \<lparr>val1 = 23, val2 = 456000\<rparr>, Some \<lparr>val1 = 101, val2 = 325000\<rparr>,
                   Some \<lparr>val1 = 45, val2 = 120000\<rparr>),
      in_timeout = False, in_socket = 3, in_accept = 4\<rparr>"

definition sample_2 :: input where
  "sample_2 =
     \<lparr>in_sample = (Some \<lparr>val1 = 24, val2 = 0\<rparr>, None, None),
      in_timeout = True, in_socket = 3, in_accept = 4\<rparr>"

text \<open>
  The sampler publishes the example reading while the handler waits for the mutex; the
  handler then copies it while the sampler, with its next sample, times out.
\<close>

definition contended_schedule :: "(thread \<times> input) list" where
  "contended_schedule =
     [(Sensor, sample_1), (Sensor, sample_1), (Web, sample_1), (Web, sample_1),
      (Sensor, sample_1), (Sensor, sample_1), (Sensor, sample_1), (Sensor, sample_1),
      (Web, sample_1),
      (Sensor, sample_1), (Sensor, sample_1), (Sensor, sample_1),
      (Web, sample_1),
      (Sensor, sample_1),
      (Web, sample_1), (Web, sample_1), (Web, sample_1), (Web, sample_1),
      (Sensor, sample_2), (Sensor, sample_2), (Sensor, sample_2),
      (Web, sample_1), (Web, sample_1), (Web, sample_1), (Web, sample_1)]"

definition contended_log :: "action list" where
  "contended_log =
     [Sampled example_reading,
      Call Socket, Call (Bind 3 80), Call (Listen 3 5),
      Call (Log_inf ''Web server listening on port 80''),
      Call (Accept 3),
      Locked Sensor, Unlocked Sensor example_reading, Locked Web,
      Call (K_sleep 5000),
      Sampled (example_reading\<lparr>temp := \<lparr>val1 = 24, val2 = 0\<rparr>\<rparr>), Timed_out Sensor]"

definition unready_prefix :: "(thread \<times> input) list" where
  "unready_prefix = [(Web, sample_1), (Sensor, sample_1), (Web, sample_1)]"

definition unready_schedule :: "(thread \<times> input) list" where
  "unready_schedule =
     unready_prefix @
     [(Sensor, sample_1),
      (Web, sample_1), (Web, sample_1), (Web, sample_1), (Web, sample_1),
      (Sensor, sample_2),
      (Web, sample_1), (Web, sample_1), (Web, sample_1), (Web, sample_1),
      (Web, sample_1), (Web, sample_1)]"

text \<open>The steps of one handler run, and of one sampling cycle, when nothing interleaves.\<close>

definition handler_steps :: "input \<Rightarrow> (thread \<times> input) list" where
  "handler_steps i =
     [(Web, i), (Web, i), (Web, i), (Web, i), (Web, i), (Web, i), (Web, i), (Web, i), (Web, i),
      (Web, i)]"

definition handler_timeout_steps :: "input \<Rightarrow> (thread \<times> input) list" where
  "handler_timeout_steps i = [(Web, i), (Web, i), (Web, i)]"

definition cycle_steps :: "input \<Rightarrow> (thread \<times> input) list" where
  "cycle_steps i =
     [(Sensor, i), (Sensor, i), (Sensor, i), (Sensor, i), (Sensor, i), (Sensor, i), (Sensor, i),
      (Sensor, i), (Sensor, i), (Sensor, i)]"

definition cycle_of :: "input \<Rightarrow> int \<Rightarrow> cycle_in" where
  "cycle_of i rc =
     \<lparr>temp_sample = fst (in_sample i), press_sample = fst (snd (in_sample i)),
      humidity_sample = snd (snd (in_sample i)), cycle_lock_rc = rc\<rparr>"

text \<open>The 200 response for the zero reading, written out.\<close>

definition zero_response :: string where
  "zero_response =
     ''HTTP/1.1 200 OK'' @ [CHR 0x0D, CHR 0x0A] @ ''Content-Type: text/html'' @
     [CHR 0x0D, CHR 0x0A, CHR 0x0D, CHR 0x0A] @
     ''<html><head><title>Weather Station</title></head><body><h1>Weather Station</h1>'' @
     ''<p>Temperature: 0.000000 C</p><p>Pressure: 0.000000 kPa</p>'' @
     ''<p>Humidity: 0.000000 %</p></body></html>''"

section \<open>Properties of the conversions\<close>

lemma digit_char_in: "d < 10 \<Longrightarrow> digit_char d \<in> set ''0123456789''"
  unfolding digit_char_def by (rule nth_mem) simp

lemma digits_chars: "set (digits n) \<subseteq> set ''0123456789''"
proof (induction n rule: digits.induct)
  case (1 n)
  show ?case
  proof (cases "n < 10")
    case True
    then show ?thesis using digit_char_in [of n] by (subst digits.simps) simp
  next
    case False
    have "n mod 10 < 10" by simp
    then have "digit_char (n mod 10) \<in> set ''0123456789''" by (rule digit_char_in)
    with False "1.IH" show ?thesis by (subst digits.simps) simp
  qed
qed

lemma digits_length_le: "0 < k \<Longrightarrow> n < 10 ^ k \<Longrightarrow> length (digits n) \<le> k"
proof (induction k arbitrary: n)
  case 0
  then show ?case by simp
next
  case (Suc k)
  show ?case
  proof (cases "n < 10")
    case True
    then show ?thesis by (subst digits.simps) simp
  next
    case False
    with Suc.prems have k: "0 < k" by (cases k) auto
    from Suc.prems have "n div 10 < 10 ^ k" by (simp add: less_mult_imp_div_less mult.commute)
    with k Suc.IH have "length (digits (n div 10)) \<le> k" by blast
    with False show ?thesis by (subst digits.simps) simp
  qed
qed

lemma sint32_range: "- (2 ^ 31) \<le> sint (x :: 32 word) \<and> sint x < 2 ^ 31"
  using sint_ge [of x] sint_lt [of x] by simp

lemma fmt_d_length: "- (2 ^ 31) \<le> i \<Longrightarrow> i < 2 ^ 31 \<Longrightarrow> length (fmt_d i) \<le> 11"
proof -
  assume a: "- (2 ^ 31) \<le> i" "i < 2 ^ 31"
  have "nat \<bar>i\<bar> < 10 ^ 10" using a by simp
  then have "length (digits (nat \<bar>i\<bar>)) \<le> 10" by (intro digits_length_le) simp_all
  then show ?thesis by (auto simp: fmt_d_def abs_if)
qed

lemma digits_length_6: "n \<le> 999999 \<Longrightarrow> length (digits n) \<le> 6"
  by (rule digits_length_le) simp_all

lemma fmt_06d_in_range: "0 \<le> i \<Longrightarrow> fmt_06d i = zero_pad 6 (digits (nat i))"
  by (simp add: fmt_06d_def)

lemma length_six_digits: "n \<le> 999999 \<Longrightarrow> length (zero_pad 6 (digits n)) = 6"
  using digits_length_6 [of n] by (simp add: zero_pad_def)

lemma fmt_06d_length: "0 \<le> i \<Longrightarrow> i \<le> 999999 \<Longrightarrow> length (fmt_06d i) = 6"
  using length_six_digits [of "nat i"] by (simp add: fmt_06d_in_range)

lemma fmt_value_length: "fraction_in_range v \<Longrightarrow> length (fmt_value v) \<le> 18"
  using fmt_06d_length [of "sint (val2 v)"] fmt_d_length [of "sint (val1 v)"]
    sint32_range [of "val1 v"]
  by (simp add: fmt_value_def fraction_in_range_def)

subsection \<open>No NUL in the formatted output, so strlen is its length\<close>

lemma strlen_no_nul: "CHR 0x00 \<notin> set s \<Longrightarrow> strlen s = length s"
  unfolding strlen_def by (induction s) auto

lemma digits_no_nul: "CHR 0x00 \<notin> set (digits n)"
  using digits_chars [of n] by auto

lemma fmt_d_no_nul: "CHR 0x00 \<notin> set (fmt_d i)"
  by (simp add: fmt_d_def digits_no_nul)

lemma fmt_06d_no_nul: "CHR 0x00 \<notin> set (fmt_06d i)"
  by (simp add: fmt_06d_def zero_pad_def digits_no_nul)

lemma fmt_value_no_nul: "CHR 0x00 \<notin> set (fmt_value v)"
  by (simp add: fmt_value_def fmt_d_no_nul fmt_06d_no_nul)

lemma format_response_no_nul: "CHR 0x00 \<notin> set (format_response d)"
  by (simp add: format_response_def http_200_head_def html_body_def CRLF_def fmt_value_no_nul)

lemma strlen_response:
  "strlen (snprintf 256 (format_response d)) = length (snprintf 256 (format_response d))"
proof (rule strlen_no_nul)
  show "CHR 0x00 \<notin> set (snprintf 256 (format_response d))"
    using format_response_no_nul [of d] unfolding snprintf_def by (auto dest: in_set_takeD)
qed

lemma strlen_error_response: "strlen error_response = length error_response"
  by (rule strlen_no_nul) (simp add: error_response_def CRLF_def)

subsection \<open>Length of the response\<close>

lemma length_format_response:
  "length (format_response d) =
     199 + length (fmt_value (temp d)) + length (fmt_value (press d)) + length (fmt_value (humidity d))"
  by (simp add: format_response_def http_200_head_def html_body_def CRLF_def)

lemma format_response_fits: "fractions_in_range d \<Longrightarrow> length (format_response d) \<le> 253"
  using fmt_value_length [of "temp d"] fmt_value_length [of "press d"]
    fmt_value_length [of "humidity d"]
  by (simp add: length_format_response fractions_in_range_def)

lemma digits_2147483648: "digits 2147483648 = ''2147483648''"
  by (simp add: digits.simps digit_char_def)

lemma fmt_value_min:
  "fmt_value \<lparr>val1 = 0x80000000, val2 = 0x80000000\<rparr> = ''-2147483648.-2147483648''"
  by (simp add: fmt_value_def fmt_d_def fmt_06d_def zero_pad_def digits_2147483648)

lemma length_format_response_min: "length (format_response min_reading) = 268"
  by (simp add: length_format_response min_reading_def fmt_value_min)

text \<open>
  Outside the range 0..999999 the second conversion is not six digits: a negative
  fractional part, which Zephyr uses for values between -1 and 0, keeps its sign after the
  dot.
\<close>

lemma digits_500000: "digits 500000 = ''500000''"
  by (simp add: digits.simps digit_char_def)

lemma fmt_value_negative_fraction: "fmt_value \<lparr>val1 = 0, val2 = - 500000\<rparr> = ''0.-500000''"
proof -
  have "sint (- 500000 :: int32) = - 500000" by simp
  then show ?thesis
    by (simp add: fmt_value_def fmt_d_def fmt_06d_def zero_pad_def digits_500000 digits.simps
        digit_char_def)
qed

lemma fractions_in_range_example: "fractions_in_range example_reading"
  by (simp add: fractions_in_range_def fraction_in_range_def example_reading_def)

section \<open>handle_client\<close>

lemma handle_client_trace_timeout:
  "lock_rc \<noteq> 0 \<Longrightarrow>
   trace (handle_client lock_rc send_rc client w) =
     trace w @ [K_mutex_lock 500, Send client error_response, Close client]"
  by (simp add: handle_client_def emit_def Let_def strlen_error_response)

lemma handle_client_trace_ok:
  "trace (handle_client 0 send_rc client w) =
     trace w @ [K_mutex_lock 500, K_mutex_unlock,
                Send client (take 255 (format_response (latest_reading w))), Close client]"
  by (simp add: handle_client_def emit_def Let_def strlen_response) (simp add: snprintf_def)

lemma handle_client_latest_reading:
  "latest_reading (handle_client lock_rc send_rc client w) = latest_reading w"
  by (simp add: handle_client_def emit_def Let_def)

text \<open>
  Claim C1. When the 500 ms wait for \<open>data_mutex\<close> fails, \<open>handle_client\<close> makes exactly
  three calls: the lock attempt, one \<open>send\<close> of the bytes
  \<^verbatim>\<open>HTTP/1.1 503 Service Unavailable\r\n\r\n\<close> (a status line and a blank line, nothing
  else) on the connection, and \<open>close\<close> of the connection. It does not read
  \<open>latest_reading\<close>: whatever that variable holds, the run is the same, and no 200 response
  is sent.
\<close>

theorem handle_client_lock_timeout:
  assumes "lock_rc \<noteq> 0"
  shows "trace (handle_client lock_rc send_rc client w) =
           trace w @ [K_mutex_lock 500,
                      Send client (''HTTP/1.1 503 Service Unavailable'' @
                                   [CHR 0x0D, CHR 0x0A, CHR 0x0D, CHR 0x0A]),
                      Close client]
         \<and> handle_client lock_rc send_rc client (w\<lparr>latest_reading := r\<rparr>) =
             (handle_client lock_rc send_rc client w)\<lparr>latest_reading := r\<rparr>"
proof
  show "trace (handle_client lock_rc send_rc client w) =
           trace w @ [K_mutex_lock 500,
                      Send client (''HTTP/1.1 503 Service Unavailable'' @
                                   [CHR 0x0D, CHR 0x0A, CHR 0x0D, CHR 0x0A]),
                      Close client]"
    using assms handle_client_trace_timeout [of lock_rc send_rc client w]
    by (simp add: error_response_def CRLF_def)
next
  show "handle_client lock_rc send_rc client (w\<lparr>latest_reading := r\<rparr>) =
             (handle_client lock_rc send_rc client w)\<lparr>latest_reading := r\<rparr>"
    using assms by (simp add: handle_client_def emit_def Let_def)
qed

theorem handle_client_lock_timeout_witness:
  "(-11::int) \<noteq> 0 \<and>
   trace (handle_client (-11) 0 4 \<lparr>latest_reading = zero_reading, trace = []\<rparr>) =
     [K_mutex_lock 500,
      Send 4 (''HTTP/1.1 503 Service Unavailable'' @ [CHR 0x0D, CHR 0x0A, CHR 0x0D, CHR 0x0A]),
      Close 4]"
proof -
  have h: "(-11::int) \<noteq> 0" by simp
  from handle_client_lock_timeout
    [OF h, THEN conjunct1, of 0 4 "\<lparr>latest_reading = zero_reading, trace = []\<rparr>"]
  show ?thesis by simp
qed

text \<open>
  Claim C2. Every run of \<open>handle_client\<close> on a connection, whatever the lock attempt and
  the \<open>send\<close> return, only appends to the trace, and the calls it appends contain exactly
  one \<open>close\<close>, of that connection, which is the last call before it returns.
\<close>

theorem handle_client_closes_once:
  "take (length (trace w)) (trace (handle_client lock_rc send_rc client w)) = trace w \<and>
   filter is_close (drop (length (trace w)) (trace (handle_client lock_rc send_rc client w)))
     = [Close client] \<and>
   last (trace (handle_client lock_rc send_rc client w)) = Close client"
proof (cases "lock_rc = 0")
  case True
  then show ?thesis by (simp add: handle_client_trace_ok)
next
  case False
  then show ?thesis by (simp add: handle_client_trace_timeout)
qed

text \<open>
  Claim C8, as stated, fails: a reading whose six fields are all \<open>-2147483648\<close> formats to
  268 characters, and the handler sends only the first 255 of them.
\<close>

theorem response_truncated_counterexample:
  "length (format_response min_reading) = 268 \<and>
   trace (handle_client 0 0 4 \<lparr>latest_reading = min_reading, trace = []\<rparr>) =
     [K_mutex_lock 500, K_mutex_unlock, Send 4 (take 255 (format_response min_reading)), Close 4] \<and>
   take 255 (format_response min_reading) \<noteq> format_response min_reading"
proof -
  have "length (take 255 (format_response min_reading)) \<noteq> length (format_response min_reading)"
    by (simp add: length_format_response_min)
  then have "take 255 (format_response min_reading) \<noteq> format_response min_reading"
    by metis
  then show ?thesis
    by (simp add: length_format_response_min handle_client_trace_ok)
qed

text \<open>
  Claim C8, amended. The bytes \<open>handle_client\<close> sends on the 200 path are the first 255
  characters of the formatted response, so never more than 255; they are the complete
  response exactly when it has at most 255 characters; and for every reading whose three
  fractional parts lie in 0..999999 the response has at most 253 characters and is sent
  complete.
\<close>

theorem handle_client_response_bounded:
  "trace (handle_client 0 send_rc client w) =
     trace w @ [K_mutex_lock 500, K_mutex_unlock,
                Send client (take 255 (format_response (latest_reading w))), Close client] \<and>
   length (take 255 (format_response (latest_reading w))) \<le> 255 \<and>
   (take 255 (format_response (latest_reading w)) = format_response (latest_reading w)
      \<longleftrightarrow> length (format_response (latest_reading w)) \<le> 255) \<and>
   (fractions_in_range (latest_reading w) \<longrightarrow>
      length (format_response (latest_reading w)) \<le> 253 \<and>
      take 255 (format_response (latest_reading w)) = format_response (latest_reading w))"
proof -
  let ?out = "format_response (latest_reading w)"
  have a: "take 255 ?out = ?out \<longleftrightarrow> length ?out \<le> 255"
    by (metis length_take min.absorb2 min.cobounded2 take_all)
  have b: "fractions_in_range (latest_reading w) \<longrightarrow> length ?out \<le> 253 \<and> take 255 ?out = ?out"
  proof
    assume "fractions_in_range (latest_reading w)"
    then have "length ?out \<le> 253" by (rule format_response_fits)
    then show "length ?out \<le> 253 \<and> take 255 ?out = ?out" by simp
  qed
  show ?thesis using a b by (simp add: handle_client_trace_ok)
qed

theorem handle_client_response_bounded_witness:
  "fractions_in_range example_reading \<and>
   length (format_response example_reading) \<le> 253 \<and>
   trace (handle_client 0 0 4 \<lparr>latest_reading = example_reading, trace = []\<rparr>) =
     [K_mutex_lock 500, K_mutex_unlock, Send 4 (format_response example_reading), Close 4]"
  using handle_client_response_bounded [of 0 4 "\<lparr>latest_reading = example_reading, trace = []\<rparr>"]
    fractions_in_range_example
  by simp

section \<open>The rendered fields and the parser\<close>

lemma lt_10_cases:
  "d < 10 \<Longrightarrow> d = 0 \<or> d = 1 \<or> d = 2 \<or> d = 3 \<or> d = 4 \<or> d = 5 \<or> d = 6 \<or> d = 7 \<or> d = 8 \<or> d = (9::nat)"
  by arith

lemma digit_val_digit_char: "d < 10 \<Longrightarrow> digit_val (digit_char d) = d"
  by (drule lt_10_cases) (auto simp: digit_val_def digit_char_def)

lemma is_digit_digit_char: "d < 10 \<Longrightarrow> is_digit (digit_char d)"
  unfolding is_digit_def by (rule digit_char_in)

lemma is_digit_digits: "x \<in> set (digits n) \<Longrightarrow> is_digit x"
  using digits_chars [of n] unfolding is_digit_def by blast

lemma decimal_value_snoc: "decimal_value (s @ [c]) = 10 * decimal_value s + digit_val c"
  by (simp add: decimal_value_def)

lemma decimal_value_digits: "decimal_value (digits n) = n"
proof (induction n rule: digits.induct)
  case (1 n)
  show ?case
  proof (cases "n < 10")
    case True
    then show ?thesis
      by (subst digits.simps) (simp add: decimal_value_def digit_val_digit_char)
  next
    case False
    with "1.IH" have "decimal_value (digits (n div 10)) = n div 10" by simp
    with False show ?thesis
      by (subst digits.simps) (simp add: decimal_value_snoc digit_val_digit_char)
  qed
qed

lemma decimal_value_zero_Cons: "decimal_value (CHR ''0'' # s) = decimal_value s"
  by (simp add: decimal_value_def digit_val_def)

lemma decimal_value_zeros: "decimal_value (replicate k (CHR ''0'') @ s) = decimal_value s"
  by (induction k) (simp_all add: decimal_value_zero_Cons)

lemma digits_not_Nil: "digits n \<noteq> []"
  by (subst digits.simps) simp

lemma parse_nat_digits:
  assumes "ds \<noteq> []" and "\<And>x. x \<in> set ds \<Longrightarrow> is_digit x" and "\<not> is_digit c"
  shows "parse_nat (ds @ c # r) = Some (decimal_value ds, c # r)"
proof -
  have "takeWhile is_digit (ds @ c # r) = ds"
    using assms(2,3) by (simp add: takeWhile_append2)
  moreover have "dropWhile is_digit (ds @ c # r) = c # r"
    using assms(2,3) by (simp add: dropWhile_append2)
  ultimately show ?thesis using assms(1) by (simp add: parse_nat_def)
qed

lemma hd_digits_not_minus: "\<exists>x xs. digits n = x # xs \<and> x \<noteq> CHR ''-''"
proof (cases "digits n")
  case Nil
  then show ?thesis using digits_not_Nil by simp
next
  case (Cons x xs)
  then have "is_digit x" using is_digit_digits [of x n] by simp
  then have "x \<noteq> CHR ''-''" by (auto simp: is_digit_def)
  with Cons show ?thesis by simp
qed

lemma is_digit_zero_pad: "x \<in> set (zero_pad w (digits n)) \<Longrightarrow> is_digit x"
  by (auto simp: zero_pad_def is_digit_digits) (simp add: is_digit_def)

lemma zero_pad_not_Nil: "zero_pad w (digits n) \<noteq> []"
  by (simp add: zero_pad_def digits_not_Nil)

lemma decimal_value_zero_pad: "decimal_value (zero_pad w (digits n)) = n"
  by (simp add: zero_pad_def decimal_value_zeros decimal_value_digits)

lemma parse_nat_zero_pad:
  "\<not> is_digit c \<Longrightarrow> parse_nat (zero_pad w (digits n) @ c # r) = Some (n, c # r)"
  using parse_nat_digits [of "zero_pad w (digits n)" c r]
  by (simp add: zero_pad_not_Nil is_digit_zero_pad decimal_value_zero_pad)

lemma parse_nat_plain:
  "\<not> is_digit c \<Longrightarrow> parse_nat (digits n @ c # r) = Some (n, c # r)"
  using parse_nat_digits [of "digits n" c r]
  by (simp add: digits_not_Nil is_digit_digits decimal_value_digits)

lemma hd_zero_pad_not_minus: "\<exists>x xs. zero_pad w (digits n) = x # xs \<and> x \<noteq> CHR ''-''"
proof (cases "zero_pad w (digits n)")
  case Nil
  then show ?thesis using zero_pad_not_Nil by simp
next
  case (Cons x xs)
  then have "is_digit x" using is_digit_zero_pad [of x w n] by simp
  then have "x \<noteq> CHR ''-''" by (auto simp: is_digit_def)
  with Cons show ?thesis by simp
qed

lemma parse_int_fmt_d:
  assumes "\<not> is_digit c"
  shows "parse_int (fmt_d i @ c # r) = Some (i, c # r)"
proof (cases "i < 0")
  case True
  then show ?thesis
    using parse_nat_plain [OF assms, of "nat (- i)" r]
    by (simp add: fmt_d_def parse_int_def)
next
  case False
  obtain x xs where d: "digits (nat i) = x # xs" "x \<noteq> CHR ''-''"
    using hd_digits_not_minus by blast
  have "parse_nat (digits (nat i) @ c # r) = Some (nat i, c # r)"
    by (rule parse_nat_plain [OF assms])
  with d False show ?thesis
    by (simp add: fmt_d_def parse_int_def)
qed

lemma parse_int_fmt_06d:
  assumes "\<not> is_digit c"
  shows "parse_int (fmt_06d i @ c # r) = Some (i, c # r)"
proof (cases "i < 0")
  case True
  then show ?thesis
    using parse_nat_zero_pad [OF assms, of 5 "nat (- i)" r]
    by (simp add: fmt_06d_def parse_int_def)
next
  case False
  obtain x xs where d: "zero_pad 6 (digits (nat i)) = x # xs" "x \<noteq> CHR ''-''"
    using hd_zero_pad_not_minus by blast
  have "parse_nat (zero_pad 6 (digits (nat i)) @ c # r) = Some (nat i, c # r)"
    by (rule parse_nat_zero_pad [OF assms])
  with d False show ?thesis
    by (simp add: fmt_06d_def parse_int_def)
qed

lemma parse_pair_fmt_value:
  assumes "\<not> is_digit c"
  shows "parse_pair (fmt_value v @ c # r) = Some ((sint (val1 v), sint (val2 v)), c # r)"
proof -
  have dot: "\<not> is_digit (CHR ''.'')" by (simp add: is_digit_def)
  have "parse_int (fmt_d (sint (val1 v)) @ CHR ''.'' # fmt_06d (sint (val2 v)) @ c # r)
          = Some (sint (val1 v), CHR ''.'' # fmt_06d (sint (val2 v)) @ c # r)"
    by (rule parse_int_fmt_d [OF dot])
  then show ?thesis
    by (simp add: parse_pair_def fmt_value_def parse_int_fmt_06d [OF assms])
qed

lemma parse_body_html_body:
  "parse_body (html_body d) =
     Some ((sint (val1 (temp d)), sint (val2 (temp d))),
           (sint (val1 (press d)), sint (val2 (press d))),
           (sint (val1 (humidity d)), sint (val2 (humidity d))))"
proof -
  have sp: "\<not> is_digit (CHR '' '')" by (simp add: is_digit_def)
  show ?thesis
    by (simp add: parse_body_def html_body_def parse_pair_fmt_value [OF sp])
qed

lemma digits_2147483647: "digits 2147483647 = ''2147483647''"
  by (simp add: digits.simps digit_char_def)

lemma fmt_value_max:
  "fmt_value \<lparr>val1 = 0x7FFFFFFF, val2 = 0x7FFFFFFF\<rparr> = ''2147483647.2147483647''"
  by (simp add: fmt_value_def fmt_d_def fmt_06d_def zero_pad_def digits_2147483647)

lemma format_response_max:
  "format_response max_reading =
     ''HTTP/1.1 200 OK'' @ [CHR 0x0D, CHR 0x0A] @ ''Content-Type: text/html'' @
     [CHR 0x0D, CHR 0x0A, CHR 0x0D, CHR 0x0A] @
     ''<html><head><title>Weather Station</title></head><body><h1>Weather Station</h1>'' @
     ''<p>Temperature: 2147483647.2147483647 C</p><p>Pressure: 2147483647.2147483647 kPa</p>'' @
     ''<p>Humidity: 2147483647.2147483647 %</p></body></html>''"
  by (simp add: format_response_def http_200_head_def html_body_def CRLF_def max_reading_def fmt_value_max)

lemma take_255_format_response_max:
  "take 255 (format_response max_reading) =
     ''HTTP/1.1 200 OK'' @ [CHR 0x0D, CHR 0x0A] @ ''Content-Type: text/html'' @
     [CHR 0x0D, CHR 0x0A, CHR 0x0D, CHR 0x0A] @
     ''<html><head><title>Weather Station</title></head><body><h1>Weather Station</h1>'' @
     ''<p>Temperature: 2147483647.2147483647 C</p><p>Pressure: 2147483647.2147483647 kPa</p>'' @
     ''<p>Humidity: 2147483647.2147483647 %</p></body>''"
  by (simp add: format_response_max)

lemma digits_examples:
  "digits 23 = ''23''" "digits 456000 = ''456000''" "digits 101 = ''101''"
  "digits 325000 = ''325000''" "digits 45 = ''45''" "digits 120000 = ''120000''"
  by (simp_all add: digits.simps digit_char_def)

lemma fmt_value_examples:
  "fmt_value \<lparr>val1 = 23, val2 = 456000\<rparr> = ''23.456000''"
  "fmt_value \<lparr>val1 = 101, val2 = 325000\<rparr> = ''101.325000''"
  "fmt_value \<lparr>val1 = 45, val2 = 120000\<rparr> = ''45.120000''"
  by (simp_all add: fmt_value_def fmt_d_def fmt_06d_def zero_pad_def digits_examples)

lemma format_response_example:
  "format_response example_reading =
     ''HTTP/1.1 200 OK'' @ [CHR 0x0D, CHR 0x0A] @ ''Content-Type: text/html'' @
     [CHR 0x0D, CHR 0x0A, CHR 0x0D, CHR 0x0A] @
     ''<html><head><title>Weather Station</title></head><body><h1>Weather Station</h1>'' @
     ''<p>Temperature: 23.456000 C</p><p>Pressure: 101.325000 kPa</p>'' @
     ''<p>Humidity: 45.120000 %</p></body></html>''"
  by (simp add: format_response_def http_200_head_def html_body_def CRLF_def example_reading_def
      fmt_value_examples)

lemma six_digits_length: "n \<le> 999999 \<Longrightarrow> length (six_digits n) = 6"
  using digits_length_6 [of n] by (simp add: six_digits_def)

lemma fmt_value_decimal_pair: "fraction_in_range v \<Longrightarrow> fmt_value v = decimal_pair v"
  by (simp add: fraction_in_range_def fmt_value_def decimal_pair_def fmt_06d_in_range
      zero_pad_def six_digits_def)

lemma fraction_six_digits:
  "fraction_in_range v \<Longrightarrow> length (six_digits (nat (sint (val2 v)))) = 6"
  by (rule six_digits_length) (auto simp: fraction_in_range_def)

lemma handle_client_trace_complete:
  assumes "fractions_in_range (latest_reading w)"
  shows "trace (handle_client 0 send_rc client w) =
     trace w @ [K_mutex_lock 500, K_mutex_unlock,
                Send client (format_response (latest_reading w)), Close client]"
proof -
  have "length (format_response (latest_reading w)) \<le> 253"
    using assms by (rule format_response_fits)
  then have "take 255 (format_response (latest_reading w)) = format_response (latest_reading w)"
    by simp
  then show ?thesis by (simp add: handle_client_trace_ok)
qed

lemma format_response_decimal_pairs:
  assumes "fractions_in_range d"
  shows "format_response d =
           ''HTTP/1.1 200 OK'' @ [CHR 0x0D, CHR 0x0A] @
           ''Content-Type: text/html'' @ [CHR 0x0D, CHR 0x0A] @
           [CHR 0x0D, CHR 0x0A] @
           ''<html><head><title>Weather Station</title></head>'' @
           ''<body><h1>Weather Station</h1>'' @
           ''<p>Temperature: '' @ decimal_pair (temp d) @ '' C</p>'' @
           ''<p>Pressure: '' @ decimal_pair (press d) @ '' kPa</p>'' @
           ''<p>Humidity: '' @ decimal_pair (humidity d) @ '' %</p>'' @
           ''</body></html>''"
  using assms
  by (simp add: fractions_in_range_def fmt_value_decimal_pair format_response_def
      http_200_head_def html_body_def CRLF_def)

text \<open>
  Claim C3, amended. For every reading whose three fractional parts lie in 0..999999, the
  bytes \<open>handle_client\<close> sends after taking the lock are the status line
  \<^verbatim>\<open>HTTP/1.1 200 OK\<close>, the header \<^verbatim>\<open>Content-Type: text/html\<close>, a blank line and
  the page, in which each field is its integer part, a dot and its fractional part as
  exactly six digits; for the reading (23, 456000), (101, 325000), (45, 120000) the page
  holds \<^verbatim>\<open>Temperature: 23.456000 C\<close>, \<^verbatim>\<open>Pressure: 101.325000 kPa\<close> and
  \<^verbatim>\<open>Humidity: 45.120000 %\<close>.
\<close>

theorem handle_client_200_response:
  "(fractions_in_range (latest_reading w) \<longrightarrow>
      trace (handle_client 0 send_rc client w) =
        trace w @
        [K_mutex_lock 500, K_mutex_unlock,
         Send client
           (''HTTP/1.1 200 OK'' @ [CHR 0x0D, CHR 0x0A] @
            ''Content-Type: text/html'' @ [CHR 0x0D, CHR 0x0A] @
            [CHR 0x0D, CHR 0x0A] @
            ''<html><head><title>Weather Station</title></head>'' @
            ''<body><h1>Weather Station</h1>'' @
            ''<p>Temperature: '' @ decimal_pair (temp (latest_reading w)) @ '' C</p>'' @
            ''<p>Pressure: '' @ decimal_pair (press (latest_reading w)) @ '' kPa</p>'' @
            ''<p>Humidity: '' @ decimal_pair (humidity (latest_reading w)) @ '' %</p>'' @
            ''</body></html>''),
         Close client] \<and>
      length (six_digits (nat (sint (val2 (temp (latest_reading w)))))) = 6 \<and>
      length (six_digits (nat (sint (val2 (press (latest_reading w)))))) = 6 \<and>
      length (six_digits (nat (sint (val2 (humidity (latest_reading w)))))) = 6) \<and>
   (latest_reading w = example_reading \<longrightarrow>
      trace (handle_client 0 send_rc client w) =
        trace w @
        [K_mutex_lock 500, K_mutex_unlock,
         Send client
           (''HTTP/1.1 200 OK'' @ [CHR 0x0D, CHR 0x0A] @
            ''Content-Type: text/html'' @ [CHR 0x0D, CHR 0x0A] @
            [CHR 0x0D, CHR 0x0A] @
            ''<html><head><title>Weather Station</title></head>'' @
            ''<body><h1>Weather Station</h1>'' @
            ''<p>Temperature: 23.456000 C</p>'' @
            ''<p>Pressure: 101.325000 kPa</p>'' @
            ''<p>Humidity: 45.120000 %</p>'' @
            ''</body></html>''),
         Close client])"
proof (intro conjI impI)
  assume a: "fractions_in_range (latest_reading w)"
  show "trace (handle_client 0 send_rc client w) =
        trace w @
        [K_mutex_lock 500, K_mutex_unlock,
         Send client
           (''HTTP/1.1 200 OK'' @ [CHR 0x0D, CHR 0x0A] @
            ''Content-Type: text/html'' @ [CHR 0x0D, CHR 0x0A] @
            [CHR 0x0D, CHR 0x0A] @
            ''<html><head><title>Weather Station</title></head>'' @
            ''<body><h1>Weather Station</h1>'' @
            ''<p>Temperature: '' @ decimal_pair (temp (latest_reading w)) @ '' C</p>'' @
            ''<p>Pressure: '' @ decimal_pair (press (latest_reading w)) @ '' kPa</p>'' @
            ''<p>Humidity: '' @ decimal_pair (humidity (latest_reading w)) @ '' %</p>'' @
            ''</body></html>''),
         Close client]"
    unfolding handle_client_trace_complete [OF a] format_response_decimal_pairs [OF a] ..
  show "length (six_digits (nat (sint (val2 (temp (latest_reading w)))))) = 6"
    using a by (simp add: fractions_in_range_def fraction_six_digits)
  show "length (six_digits (nat (sint (val2 (press (latest_reading w)))))) = 6"
    using a by (simp add: fractions_in_range_def fraction_six_digits)
  show "length (six_digits (nat (sint (val2 (humidity (latest_reading w)))))) = 6"
    using a by (simp add: fractions_in_range_def fraction_six_digits)
next
  assume e: "latest_reading w = example_reading"
  then have a: "fractions_in_range (latest_reading w)"
    by (simp add: fractions_in_range_example)
  show "trace (handle_client 0 send_rc client w) =
        trace w @
        [K_mutex_lock 500, K_mutex_unlock,
         Send client
           (''HTTP/1.1 200 OK'' @ [CHR 0x0D, CHR 0x0A] @
            ''Content-Type: text/html'' @ [CHR 0x0D, CHR 0x0A] @
            [CHR 0x0D, CHR 0x0A] @
            ''<html><head><title>Weather Station</title></head>'' @
            ''<body><h1>Weather Station</h1>'' @
            ''<p>Temperature: 23.456000 C</p>'' @
            ''<p>Pressure: 101.325000 kPa</p>'' @
            ''<p>Humidity: 45.120000 %</p>'' @
            ''</body></html>''),
         Close client]"
    unfolding handle_client_trace_complete [OF a] e format_response_example by simp
qed

theorem handle_client_200_response_witness:
  "fractions_in_range example_reading \<and>
   length (six_digits (nat (sint (val2 (temp example_reading))))) = 6 \<and>
   trace (handle_client 0 0 4 \<lparr>latest_reading = example_reading, trace = []\<rparr>) =
     [K_mutex_lock 500, K_mutex_unlock,
      Send 4
        (''HTTP/1.1 200 OK'' @ [CHR 0x0D, CHR 0x0A] @
         ''Content-Type: text/html'' @ [CHR 0x0D, CHR 0x0A] @
         [CHR 0x0D, CHR 0x0A] @
         ''<html><head><title>Weather Station</title></head>'' @
         ''<body><h1>Weather Station</h1>'' @
         ''<p>Temperature: 23.456000 C</p>'' @
         ''<p>Pressure: 101.325000 kPa</p>'' @
         ''<p>Humidity: 45.120000 %</p>'' @
         ''</body></html>''),
      Close 4]"
proof -
  let ?w = "\<lparr>latest_reading = example_reading, trace = []\<rparr>"
  have f: "fractions_in_range (latest_reading ?w)"
    by (simp add: fractions_in_range_example)
  from handle_client_200_response [of ?w 0 4, THEN conjunct1] f
  have "length (six_digits (nat (sint (val2 (temp (latest_reading ?w)))))) = 6"
    by blast
  then have s: "length (six_digits (nat (sint (val2 (temp example_reading))))) = 6"
    by simp
  from handle_client_200_response [of ?w 0 4, THEN conjunct2]
  have t: "trace (handle_client 0 0 4 ?w) =
     [K_mutex_lock 500, K_mutex_unlock,
      Send 4
        (''HTTP/1.1 200 OK'' @ [CHR 0x0D, CHR 0x0A] @
         ''Content-Type: text/html'' @ [CHR 0x0D, CHR 0x0A] @
         [CHR 0x0D, CHR 0x0A] @
         ''<html><head><title>Weather Station</title></head>'' @
         ''<body><h1>Weather Station</h1>'' @
         ''<p>Temperature: 23.456000 C</p>'' @
         ''<p>Pressure: 101.325000 kPa</p>'' @
         ''<p>Humidity: 45.120000 %</p>'' @
         ''</body></html>''),
      Close 4]"
    by simp
  from fractions_in_range_example s t show ?thesis by blast
qed

text \<open>
  Claim C3, as stated for every reading, fails: with all six fields \<open>2147483647\<close> the
  formatted response has 262 characters, and what is sent stops after
  \<^verbatim>\<open></body>\<close>, so it is not the status line, header, blank line and whole page.
\<close>

theorem response_cut_counterexample:
  "trace (handle_client 0 0 4 \<lparr>latest_reading = max_reading, trace = []\<rparr>) =
     [K_mutex_lock 500, K_mutex_unlock,
      Send 4
        (''HTTP/1.1 200 OK'' @ [CHR 0x0D, CHR 0x0A] @
         ''Content-Type: text/html'' @ [CHR 0x0D, CHR 0x0A] @
         [CHR 0x0D, CHR 0x0A] @
         ''<html><head><title>Weather Station</title></head>'' @
         ''<body><h1>Weather Station</h1>'' @
         ''<p>Temperature: 2147483647.2147483647 C</p>'' @
         ''<p>Pressure: 2147483647.2147483647 kPa</p>'' @
         ''<p>Humidity: 2147483647.2147483647 %</p>'' @
         ''</body>''),
      Close 4] \<and>
   trace (handle_client 0 0 4 \<lparr>latest_reading = max_reading, trace = []\<rparr>) \<noteq>
     [K_mutex_lock 500, K_mutex_unlock,
      Send 4 (http_200_head @ html_body max_reading),
      Close 4]"
proof -
  have "length (take 255 (format_response max_reading)) \<noteq> length (format_response max_reading)"
    by (simp add: format_response_max)
  then have "take 255 (format_response max_reading) \<noteq> format_response max_reading"
    by metis
  then have ne: "take 255 (format_response max_reading) \<noteq> http_200_head @ html_body max_reading"
    by (simp add: format_response_def)
  show ?thesis
    unfolding handle_client_trace_ok using ne
    by (simp add: take_255_format_response_max)
qed

text \<open>
  Claim C7. For every reading whose three fractional parts lie in 0..999999, the bytes
  sent on the 200 path are the head followed by the page, and parsing the three decimal
  pairs out of that page gives back the integer and fractional values of the temperature,
  the pressure and the humidity.
\<close>

theorem format_parse_round_trip:
  assumes "fractions_in_range (latest_reading w)"
  shows "trace (handle_client 0 send_rc client w) =
           trace w @ [K_mutex_lock 500, K_mutex_unlock,
                      Send client (http_200_head @ html_body (latest_reading w)), Close client] \<and>
         parse_body (html_body (latest_reading w)) =
           Some ((sint (val1 (temp (latest_reading w))), sint (val2 (temp (latest_reading w)))),
                 (sint (val1 (press (latest_reading w))), sint (val2 (press (latest_reading w)))),
                 (sint (val1 (humidity (latest_reading w))), sint (val2 (humidity (latest_reading w)))))"
  using handle_client_trace_complete [OF assms, of send_rc client]
  by (simp add: format_response_def parse_body_html_body)

theorem format_parse_round_trip_witness:
  "fractions_in_range example_reading \<and>
   parse_body (html_body example_reading) = Some ((23, 456000), (101, 325000), (45, 120000))"
proof -
  have a: "fractions_in_range (latest_reading \<lparr>latest_reading = example_reading, trace = []\<rparr>)"
    by (simp add: fractions_in_range_example)
  from format_parse_round_trip [OF a, of 0 4, THEN conjunct2]
  have "parse_body (html_body example_reading) = Some ((23, 456000), (101, 325000), (45, 120000))"
    by (simp add: example_reading_def)
  then show ?thesis using fractions_in_range_example by blast
qed

section \<open>The accept loop\<close>

lemma fmt_d_port: "fmt_d (int WEB_SERVER_PORT) = ''80''"
  by (simp add: WEB_SERVER_PORT_def fmt_d_def digits.simps digit_char_def)

lemma fmt_d_80: "fmt_d 80 = ''80''"
  using fmt_d_port by (simp add: WEB_SERVER_PORT_def)

lemma handle_client_events:
  "trace (handle_client (client_lock_rc i) (client_send_rc i) (accept_rc i) w) =
     trace w @ client_events (latest_reading w) i"
  by (cases "client_lock_rc i = 0")
     (simp_all add: client_events_def handle_client_trace_ok handle_client_trace_timeout)

lemma web_server_iteration_trace:
  "trace (web_server_iteration sock i w) = trace w @ iteration_events sock (latest_reading w) i"
  using handle_client_events [of i "emit (Accept sock) w"]
  by (simp add: web_server_iteration_def iteration_events_def Let_def emit_def)

lemma web_server_iteration_latest:
  "latest_reading (web_server_iteration sock i w) = latest_reading w"
  by (simp add: web_server_iteration_def Let_def handle_client_latest_reading emit_def)

lemma web_server_loop_trace:
  "trace (web_server_loop sock ins w) =
     trace w @ concat (map (iteration_events sock (latest_reading w)) ins)"
  by (induction ins arbitrary: w)
     (simp_all add: web_server_iteration_trace web_server_iteration_latest)

lemma web_server_thread_trace:
  "trace (the_world (web_server_thread socket_rc bind_rc listen_rc ins w)) =
     trace w @
     [Socket, Bind socket_rc 80, Listen socket_rc 5, Log_inf ''Web server listening on port 80''] @
     concat (map (iteration_events socket_rc (latest_reading w)) ins)"
  by (simp add: web_server_thread_def Let_def web_server_loop_trace fmt_d_port)
     (simp add: emit_def WEB_SERVER_PORT_def)

lemma web_server_thread_running:
  "is_running (web_server_thread socket_rc bind_rc listen_rc ins w)"
  by (simp add: web_server_thread_def Let_def)

lemma filter_is_accept_iteration:
  "filter is_accept (iteration_events sock d i) = [Accept sock]"
  by (simp add: iteration_events_def client_events_def)

lemma length_accepts_iterations:
  "length (filter is_accept (concat (map (iteration_events sock d) ins))) = length ins"
  by (induction ins) (simp_all add: filter_is_accept_iteration)

lemma iterations_all_failed:
  "\<forall>i\<in>set ins. accept_rc i < 0 \<Longrightarrow>
   concat (map (iteration_events sock d) ins) = replicate (length ins) (Accept sock)"
  by (induction ins) (simp_all add: iteration_events_def)

lemma take_255_example: "take 255 (format_response example_reading) = format_response example_reading"
  using format_response_fits [OF fractions_in_range_example] by simp

text \<open>
  Claim C9. \<open>web_server_thread\<close> never returns. After the four set-up calls its trace is
  one block per pass of the loop, in order: a pass whose \<^verbatim>\<open>accept\<close> returns a negative
  value is the \<open>Accept\<close> call alone, so the next call is the next \<open>Accept\<close> and no handler
  runs; a pass whose \<^verbatim>\<open>accept\<close> returns a handle is the \<open>Accept\<close> call followed by the
  whole run of \<open>handle_client\<close> on that handle, which ends with its \<open>Close\<close>, before the
  next \<open>Accept\<close>.
\<close>

theorem accept_loop_one_at_a_time:
  "is_running (web_server_thread socket_rc bind_rc listen_rc ins w) \<and>
   trace (the_world (web_server_thread socket_rc bind_rc listen_rc ins w)) =
     trace w @
     [Socket, Bind socket_rc 80, Listen socket_rc 5, Log_inf ''Web server listening on port 80''] @
     concat (map (iteration_events socket_rc (latest_reading w)) ins) \<and>
   (accept_rc i < 0 \<longrightarrow> iteration_events socket_rc d i = [Accept socket_rc]) \<and>
   (0 \<le> accept_rc i \<longrightarrow>
      iteration_events socket_rc d i =
        Accept socket_rc #
        trace (handle_client (client_lock_rc i) (client_send_rc i) (accept_rc i)
                 \<lparr>latest_reading = d, trace = []\<rparr>) \<and>
      last (iteration_events socket_rc d i) = Close (accept_rc i))"
proof (intro conjI impI)
  show "is_running (web_server_thread socket_rc bind_rc listen_rc ins w)"
    by (rule web_server_thread_running)
  show "trace (the_world (web_server_thread socket_rc bind_rc listen_rc ins w)) =
     trace w @
     [Socket, Bind socket_rc 80, Listen socket_rc 5, Log_inf ''Web server listening on port 80''] @
     concat (map (iteration_events socket_rc (latest_reading w)) ins)"
    by (rule web_server_thread_trace)
next
  assume "accept_rc i < 0"
  then show "iteration_events socket_rc d i = [Accept socket_rc]"
    by (simp add: iteration_events_def)
next
  assume a: "0 \<le> accept_rc i"
  then show "iteration_events socket_rc d i =
        Accept socket_rc #
        trace (handle_client (client_lock_rc i) (client_send_rc i) (accept_rc i)
                 \<lparr>latest_reading = d, trace = []\<rparr>)"
    by (simp add: iteration_events_def handle_client_events)
  from a show "last (iteration_events socket_rc d i) = Close (accept_rc i)"
    by (simp add: iteration_events_def client_events_def)
qed

theorem accept_loop_one_at_a_time_witness:
  "is_running (web_server_thread 3 0 0 accept_example
                 \<lparr>latest_reading = example_reading, trace = []\<rparr>) \<and>
   trace (the_world (web_server_thread 3 0 0 accept_example
                       \<lparr>latest_reading = example_reading, trace = []\<rparr>)) =
     [Socket, Bind 3 80, Listen 3 5, Log_inf ''Web server listening on port 80'',
      Accept 3,
      Accept 3, K_mutex_lock 500, Send 4 error_response, Close 4,
      Accept 3, K_mutex_lock 500, K_mutex_unlock, Send 5 (format_response example_reading),
      Close 5] \<and>
   accept_rc \<lparr>accept_rc = -1, client_lock_rc = 0, client_send_rc = 0\<rparr> < 0 \<and>
   iteration_events 3 example_reading \<lparr>accept_rc = -1, client_lock_rc = 0, client_send_rc = 0\<rparr> =
     [Accept 3] \<and>
   0 \<le> accept_rc \<lparr>accept_rc = 4, client_lock_rc = -11, client_send_rc = 35\<rparr> \<and>
   last (iteration_events 3 example_reading
           \<lparr>accept_rc = 4, client_lock_rc = -11, client_send_rc = 35\<rparr>) = Close 4"
proof -
  let ?w = "\<lparr>latest_reading = example_reading, trace = []\<rparr>"
  let ?a = "\<lparr>accept_rc = -1, client_lock_rc = 0, client_send_rc = 0\<rparr>"
  let ?b = "\<lparr>accept_rc = 4, client_lock_rc = -11, client_send_rc = 35\<rparr>"
  note t = accept_loop_one_at_a_time [of 3 0 0 accept_example ?w ?a example_reading]
  note u = accept_loop_one_at_a_time [of 3 0 0 accept_example ?w ?b example_reading]
  from t have r: "is_running (web_server_thread 3 0 0 accept_example ?w)" by blast
  from t have "trace (the_world (web_server_thread 3 0 0 accept_example ?w)) =
     trace ?w @
     [Socket, Bind 3 80, Listen 3 5, Log_inf ''Web server listening on port 80''] @
     concat (map (iteration_events 3 (latest_reading ?w)) accept_example)"
    by blast
  then have tr: "trace (the_world (web_server_thread 3 0 0 accept_example ?w)) =
     [Socket, Bind 3 80, Listen 3 5, Log_inf ''Web server listening on port 80'',
      Accept 3,
      Accept 3, K_mutex_lock 500, Send 4 error_response, Close 4,
      Accept 3, K_mutex_lock 500, K_mutex_unlock, Send 5 (format_response example_reading),
      Close 5]"
    by (simp add: accept_example_def iteration_events_def client_events_def take_255_example)
  have na: "accept_rc ?a < 0" by simp
  with t have ia: "iteration_events 3 example_reading ?a = [Accept 3]" by blast
  have nb: "0 \<le> accept_rc ?b" by simp
  with u have "last (iteration_events 3 example_reading ?b) = Close (accept_rc ?b)" by blast
  then have ib: "last (iteration_events 3 example_reading ?b) = Close 4" by simp
  from r tr na ia nb ib show ?thesis by blast
qed

text \<open>
  Claim C10. The results of \<^verbatim>\<open>bind\<close> and \<^verbatim>\<open>listen\<close> do not enter the run at all, and
  the result of \<^verbatim>\<open>socket\<close> is only passed on as the socket argument: for every value
  of the three, the thread makes the same four set-up calls, does not return, and calls
  \<^verbatim>\<open>accept\<close> once in every pass of the loop. When every \<^verbatim>\<open>accept\<close> fails, as on a
  socket that was never bound, the run is the set-up calls followed by \<open>Accept\<close> calls
  only.
\<close>

theorem web_server_thread_setup_unchecked:
  "web_server_thread socket_rc bind_rc listen_rc ins w =
     web_server_thread socket_rc bind_rc' listen_rc' ins w \<and>
   is_running (web_server_thread socket_rc bind_rc listen_rc ins w) \<and>
   take (length (trace w) + 4)
     (trace (the_world (web_server_thread socket_rc bind_rc listen_rc ins w))) =
     trace w @
     [Socket, Bind socket_rc 80, Listen socket_rc 5, Log_inf ''Web server listening on port 80''] \<and>
   length (filter is_accept
             (drop (length (trace w) + 4)
                (trace (the_world (web_server_thread socket_rc bind_rc listen_rc ins w))))) =
     length ins \<and>
   ((\<forall>i\<in>set ins. accept_rc i < 0) \<longrightarrow>
      trace (the_world (web_server_thread socket_rc bind_rc listen_rc ins w)) =
        trace w @
        [Socket, Bind socket_rc 80, Listen socket_rc 5, Log_inf ''Web server listening on port 80''] @
        replicate (length ins) (Accept socket_rc))"
proof (intro conjI impI)
  show "web_server_thread socket_rc bind_rc listen_rc ins w =
     web_server_thread socket_rc bind_rc' listen_rc' ins w"
    by (simp add: web_server_thread_def)
  show "is_running (web_server_thread socket_rc bind_rc listen_rc ins w)"
    by (rule web_server_thread_running)
  show "take (length (trace w) + 4)
          (trace (the_world (web_server_thread socket_rc bind_rc listen_rc ins w))) =
     trace w @
     [Socket, Bind socket_rc 80, Listen socket_rc 5, Log_inf ''Web server listening on port 80'']"
    by (simp add: web_server_thread_trace)
  show "length (filter is_accept
             (drop (length (trace w) + 4)
                (trace (the_world (web_server_thread socket_rc bind_rc listen_rc ins w))))) =
     length ins"
    by (simp add: web_server_thread_trace length_accepts_iterations)
next
  assume "\<forall>i\<in>set ins. accept_rc i < 0"
  then show "trace (the_world (web_server_thread socket_rc bind_rc listen_rc ins w)) =
        trace w @
        [Socket, Bind socket_rc 80, Listen socket_rc 5, Log_inf ''Web server listening on port 80''] @
        replicate (length ins) (Accept socket_rc)"
    by (simp add: web_server_thread_trace iterations_all_failed)
qed

theorem web_server_thread_setup_unchecked_witness:
  "list_all (\<lambda>i. accept_rc i < 0) accept_failures \<and>
   web_server_thread (-1) (-1) (-1) accept_failures \<lparr>latest_reading = zero_reading, trace = []\<rparr> =
     web_server_thread (-1) 0 0 accept_failures \<lparr>latest_reading = zero_reading, trace = []\<rparr> \<and>
   is_running (web_server_thread (-1) (-1) (-1) accept_failures
                 \<lparr>latest_reading = zero_reading, trace = []\<rparr>) \<and>
   trace (the_world (web_server_thread (-1) (-1) (-1) accept_failures
                       \<lparr>latest_reading = zero_reading, trace = []\<rparr>)) =
     [Socket, Bind (-1) 80, Listen (-1) 5, Log_inf ''Web server listening on port 80'',
      Accept (-1), Accept (-1), Accept (-1)]"
proof -
  let ?w = "\<lparr>latest_reading = zero_reading, trace = []\<rparr>"
  have h: "\<forall>i\<in>set accept_failures. accept_rc i < 0"
    by (simp add: accept_failures_def)
  have l: "length accept_failures = 3"
    by (simp add: accept_failures_def)
  note t = web_server_thread_setup_unchecked [of "-1" "-1" "-1" accept_failures ?w 0 0]
  from t have a: "web_server_thread (-1) (-1) (-1) accept_failures ?w =
     web_server_thread (-1) 0 0 accept_failures ?w"
    by blast
  from t have b: "is_running (web_server_thread (-1) (-1) (-1) accept_failures ?w)"
    by blast
  from t h have "trace (the_world (web_server_thread (-1) (-1) (-1) accept_failures ?w)) =
     trace ?w @
     [Socket, Bind (-1) 80, Listen (-1) 5, Log_inf ''Web server listening on port 80''] @
     replicate (length accept_failures) (Accept (-1))"
    by blast
  then have c: "trace (the_world (web_server_thread (-1) (-1) (-1) accept_failures ?w)) =
     [Socket, Bind (-1) 80, Listen (-1) 5, Log_inf ''Web server listening on port 80'',
      Accept (-1), Accept (-1), Accept (-1)]"
    by (simp add: l numeral_3_eq_3)
  from h have h': "list_all (\<lambda>i. accept_rc i < 0) accept_failures"
    by (simp add: list_all_iff)
  from h' a b c show ?thesis by blast
qed

section \<open>sensor_thread\<close>

text \<open>
  Claim C4. In a sampling cycle whose \<^verbatim>\<open>k_mutex_lock\<close> fails, \<open>latest_reading\<close> after the
  cycle is what it was before, and the cycle's calls are the fetch, the three channel
  reads, the one lock attempt and then the sleep: no unlock and no second attempt.
\<close>

theorem sensor_cycle_lock_timeout:
  assumes "cycle_lock_rc i \<noteq> 0"
  shows "latest_reading (snd (sensor_cycle i (data, w))) = latest_reading w \<and>
         trace (snd (sensor_cycle i (data, w))) =
           trace w @ [Sensor_sample_fetch, Sensor_channel_get SENSOR_CHAN_AMBIENT_TEMP,
                      Sensor_channel_get SENSOR_CHAN_PRESS, Sensor_channel_get SENSOR_CHAN_HUMIDITY,
                      K_mutex_lock 500, K_sleep 5000]"
  using assms by (simp add: sensor_cycle_def emit_def Let_def)

theorem sensor_cycle_lock_timeout_witness:
  "cycle_lock_rc \<lparr>temp_sample = Some \<lparr>val1 = 23, val2 = 456000\<rparr>, press_sample = None,
            humidity_sample = None, cycle_lock_rc = -11\<rparr> \<noteq> 0 \<and>
   snd (sensor_cycle \<lparr>temp_sample = Some \<lparr>val1 = 23, val2 = 456000\<rparr>, press_sample = None,
                      humidity_sample = None, cycle_lock_rc = -11\<rparr>
          (zero_reading, \<lparr>latest_reading = example_reading, trace = []\<rparr>)) =
     \<lparr>latest_reading = example_reading,
      trace = [Sensor_sample_fetch, Sensor_channel_get SENSOR_CHAN_AMBIENT_TEMP,
               Sensor_channel_get SENSOR_CHAN_PRESS, Sensor_channel_get SENSOR_CHAN_HUMIDITY,
               K_mutex_lock 500, K_sleep 5000]\<rparr>"
proof -
  let ?i = "\<lparr>temp_sample = Some \<lparr>val1 = 23, val2 = 456000\<rparr>, press_sample = None,
            humidity_sample = None, cycle_lock_rc = -11\<rparr>"
  have h: "cycle_lock_rc ?i \<noteq> 0" by simp
  from sensor_cycle_lock_timeout
    [OF h, of zero_reading "\<lparr>latest_reading = example_reading, trace = []\<rparr>"]
  show ?thesis by (simp add: world.equality)
qed

lemma sensor_cycle_published:
  "latest_reading (snd (sensor_cycle (cycle_of i 0) (data, w))) = fetch (in_sample i) data \<and>
   fst (sensor_cycle (cycle_of i 0) (data, w)) = fetch (in_sample i) data \<and>
   trace (snd (sensor_cycle (cycle_of i 0) (data, w))) =
     trace w @ [Sensor_sample_fetch, Sensor_channel_get SENSOR_CHAN_AMBIENT_TEMP,
                Sensor_channel_get SENSOR_CHAN_PRESS, Sensor_channel_get SENSOR_CHAN_HUMIDITY,
                K_mutex_lock 500, K_mutex_unlock, K_sleep 5000]"
  by (simp add: sensor_cycle_def cycle_of_def emit_def Let_def fetch_def)

section \<open>The step model\<close>

subsection \<open>Copying a reading word by word\<close>

lemma get_word_set_word_same: "get_word k (set_word k v r) = v"
  by (simp add: get_word_def set_word_def)

lemma get_word_set_word_other:
  "j \<noteq> k \<Longrightarrow> j \<le> 5 \<Longrightarrow> k \<le> 5 \<Longrightarrow> get_word j (set_word k v r) = get_word j r"
  by (simp add: get_word_def set_word_def)

lemma words_equal:
  assumes "\<And>j. j < 6 \<Longrightarrow> get_word j a = get_word j b"
  shows "a = b"
proof -
  have w: "get_word 0 a = get_word 0 b" "get_word 1 a = get_word 1 b" "get_word 2 a = get_word 2 b"
    "get_word 3 a = get_word 3 b" "get_word 4 a = get_word 4 b" "get_word 5 a = get_word 5 b"
    by (simp_all add: assms)
  have "temp a = temp b" "press a = press b" "humidity a = humidity b"
    using w by (simp_all add: get_word_def sensor_value.equality)
  then show ?thesis by (simp add: sensor_reading.equality)
qed

lemma copy_word_prefix:
  assumes "k \<le> 5" and "\<And>j. j < k \<Longrightarrow> get_word j dst = get_word j src" and "j < Suc k"
  shows "get_word j (copy_word k src dst) = get_word j src"
proof (cases "j = k")
  case True
  then show ?thesis by (simp add: copy_word_def get_word_set_word_same)
next
  case False
  with assms have "j < k" by simp
  with assms False show ?thesis by (simp add: copy_word_def get_word_set_word_other)
qed

lemma copy_word_last:
  assumes "\<And>j. j < 5 \<Longrightarrow> get_word j dst = get_word j src"
  shows "copy_word 5 src dst = src"
proof (rule words_equal)
  fix j :: nat
  assume "j < 6"
  then have "j < Suc 5" by simp
  with assms show "get_word j (copy_word 5 src dst) = get_word j src"
    by (intro copy_word_prefix) simp_all
qed

lemma agree_0: "agree 0 a b"
  by (simp add: agree_def)

lemma agree_copy_word: "k \<le> 5 \<Longrightarrow> agree k dst src \<Longrightarrow> agree (Suc k) (copy_word k src dst) src"
  unfolding agree_def using copy_word_prefix by blast

lemma agree_copy_last: "agree 5 dst src \<Longrightarrow> copy_word 5 src dst = src"
  unfolding agree_def using copy_word_last by blast

lemma copy_all:
  "copy_word 5 src (copy_word 4 src (copy_word 3 src (copy_word 2 src (copy_word 1 src
     (copy_word 0 src dst))))) = src"
proof -
  let ?d1 = "copy_word 0 src dst"
  let ?d2 = "copy_word 1 src ?d1"
  let ?d3 = "copy_word 2 src ?d2"
  let ?d4 = "copy_word 3 src ?d3"
  let ?d5 = "copy_word 4 src ?d4"
  have "agree (Suc 0) ?d1 src" by (rule agree_copy_word) (simp_all add: agree_0)
  then have "agree (Suc 1) ?d2 src" by (intro agree_copy_word) simp_all
  then have "agree (Suc 2) ?d3 src" by (intro agree_copy_word) (simp_all add: numeral_2_eq_2)
  then have "agree (Suc 3) ?d4 src" by (intro agree_copy_word) (simp_all add: numeral_3_eq_3)
  then have "agree (Suc 4) ?d5 src" by (intro agree_copy_word) (simp_all add: eval_nat_numeral)
  then have "agree 5 ?d5 src" by (simp add: eval_nat_numeral)
  then show ?thesis by (rule agree_copy_last)
qed

lemma copy_all_Suc:
  "copy_word (Suc (Suc (Suc (Suc (Suc 0))))) src
     (copy_word (Suc (Suc (Suc (Suc 0)))) src
       (copy_word (Suc (Suc (Suc 0))) src
         (copy_word (Suc (Suc 0)) src
           (copy_word (Suc 0) src (copy_word 0 src dst))))) = src"
  using copy_all [of src dst] by (simp add: eval_nat_numeral)

subsection \<open>The log\<close>

lemma reads_ok_from_append:
  "reads_ok_from p (l @ l') = (reads_ok_from p l \<and> reads_ok_from (foldl publish p l) l')"
  by (induction l arbitrary: p) auto

lemma reads_ok_from_split:
  "reads_ok_from p (before @ Unlocked Web r # after) \<Longrightarrow> r = foldl publish p before"
  by (induction before arbitrary: p) auto

lemma reads_ok_append:
  "reads_ok_from zero_reading (l @ l') =
     (reads_ok_from zero_reading l \<and> reads_ok_from (last_published l) l')"
  by (simp add: reads_ok_from_append last_published_def)

lemma last_published_append: "last_published (l @ l') = foldl publish (last_published l) l'"
  by (simp add: last_published_def)

lemma thread_other: "t \<noteq> Sensor \<Longrightarrow> t \<noteq> Web \<Longrightarrow> False"
  by (cases t) simp_all

subsection \<open>The invariant holds along every schedule\<close>

lemma inv_initial: "initial s \<Longrightarrow> sys_inv s"
  by (simp add: initial_def sys_inv_def last_published_def)

lemma inv_sensor_step:
  assumes "sys_inv s"
  shows "sys_inv (sensor_step ready i s)"
proof (cases "s_pc s")
  case S_start
  with assms show ?thesis
    by (cases "w_pc s")
       (auto simp: sys_inv_def sensor_step_def log_action_def reads_ok_append last_published_append)
next
  case S_fetch
  with assms show ?thesis
    by (cases "w_pc s")
       (auto simp: sys_inv_def sensor_step_def log_action_def reads_ok_append last_published_append)
next
  case S_lock
  with assms show ?thesis
    by (cases "w_pc s"; cases "data_mutex s")
       (auto simp: sys_inv_def sensor_step_def log_action_def reads_ok_append last_published_append
          agree_0)
next
  case (S_copy k)
  with assms have m: "data_mutex s = Some Sensor" and k: "k \<le> 5"
    and a: "agree k (shared s) (s_data s)"
    by (simp_all add: sys_inv_def)
  from assms m have w: "\<not> holds_w (w_pc s)" by (auto simp: sys_inv_def)
  show ?thesis
  proof (cases "k < 5")
    case True
    with assms S_copy m w agree_copy_word [OF k a] show ?thesis
      by (cases "w_pc s") (auto simp: sys_inv_def sensor_step_def)
  next
    case False
    with k have "k = 5" by simp
    with assms S_copy m w agree_copy_last [of "shared s" "s_data s"] a show ?thesis
      by (cases "w_pc s") (auto simp: sys_inv_def sensor_step_def)
  qed
next
  case S_unlock
  with assms have m: "data_mutex s = Some Sensor" by (simp add: sys_inv_def)
  from assms m have w: "\<not> holds_w (w_pc s)" by (auto simp: sys_inv_def)
  with assms S_unlock m show ?thesis
    by (cases "w_pc s")
       (auto simp: sys_inv_def sensor_step_def log_action_def reads_ok_append last_published_append)
next
  case S_sleep
  with assms show ?thesis
    by (cases "w_pc s")
       (auto simp: sys_inv_def sensor_step_def log_action_def reads_ok_append last_published_append)
next
  case S_returned
  with assms show ?thesis by (simp add: sensor_step_def)
qed

lemma inv_web_step:
  assumes "sys_inv s"
  shows "sys_inv (web_step i s)"
proof (cases "w_pc s")
  case W_start
  with assms show ?thesis
    by (cases "s_pc s")
       (auto simp: sys_inv_def web_step_def log_action_def reads_ok_append last_published_append)
next
  case W_accept
  with assms show ?thesis
    by (cases "s_pc s")
       (auto simp: sys_inv_def web_step_def log_action_def reads_ok_append last_published_append)
next
  case W_lock
  with assms show ?thesis
    by (cases "s_pc s"; cases "data_mutex s")
       (auto simp: sys_inv_def web_step_def log_action_def reads_ok_append last_published_append
          agree_0)
next
  case (W_copy k)
  with assms have m: "data_mutex s = Some Web" and k: "k \<le> 5"
    and a: "agree k (w_data s) (shared s)"
    by (simp_all add: sys_inv_def)
  from assms m have w: "\<not> holds_s (s_pc s)" by (auto simp: sys_inv_def)
  show ?thesis
  proof (cases "k < 5")
    case True
    with assms W_copy m w agree_copy_word [OF k a] show ?thesis
      by (cases "s_pc s") (auto simp: sys_inv_def web_step_def)
  next
    case False
    with k have "k = 5" by simp
    with assms W_copy m w agree_copy_last [of "w_data s" "shared s"] a show ?thesis
      by (cases "s_pc s") (auto simp: sys_inv_def web_step_def)
  qed
next
  case W_unlock
  with assms have m: "data_mutex s = Some Web" by (simp add: sys_inv_def)
  from assms m have w: "\<not> holds_s (s_pc s)" by (auto simp: sys_inv_def)
  with assms W_unlock m show ?thesis
    by (cases "s_pc s")
       (auto simp: sys_inv_def web_step_def log_action_def reads_ok_append last_published_append)
next
  case W_send
  with assms show ?thesis
    by (cases "s_pc s")
       (auto simp: sys_inv_def web_step_def Let_def log_action_def reads_ok_append
          last_published_append)
next
  case W_send_503
  with assms show ?thesis
    by (cases "s_pc s")
       (auto simp: sys_inv_def web_step_def log_action_def reads_ok_append last_published_append)
next
  case W_close
  with assms show ?thesis
    by (cases "s_pc s")
       (auto simp: sys_inv_def web_step_def log_action_def reads_ok_append last_published_append)
qed

lemma inv_step: "sys_inv s \<Longrightarrow> sys_inv (step ready m s)"
  by (cases m; cases "fst m") (auto simp: inv_sensor_step inv_web_step)

lemma inv_run: "sys_inv s \<Longrightarrow> sys_inv (run ready sched s)"
  by (induction sched arbitrary: s) (simp_all add: inv_step)

lemma lock_never_recursive:
  assumes "initial s0"
  shows "(s_pc (run ready sched s0) = S_lock \<longrightarrow> data_mutex (run ready sched s0) \<noteq> Some Sensor) \<and>
         (w_pc (run ready sched s0) = W_lock \<longrightarrow> data_mutex (run ready sched s0) \<noteq> Some Web)"
proof -
  have "sys_inv (run ready sched s0)" using assms by (simp add: inv_initial inv_run)
  then show ?thesis by (auto simp: sys_inv_def)
qed

subsection \<open>Concrete runs\<close>

lemmas run_simps =
  sensor_step_def web_step_def log_action_def copy_word_def get_word_def set_word_def
  fetch_def sensor_channel_get_def

lemma initial_boot: "initial boot"
  by (simp add: initial_def boot_def)

lemma run_contended:
  "log (run True contended_schedule boot) = contended_log @ [Unlocked Web example_reading]"
  by (simp add: contended_schedule_def boot_def sample_1_def sample_2_def contended_log_def
      run_simps example_reading_def min_reading_def max_reading_def zero_reading_def zero_value_def
      fmt_d_80 WEB_SERVER_PORT_def)

text \<open>
  Claim C6. Start from the initial state and run the two threads under any schedule, with
  any inputs. Whenever the handler finishes its copy of \<open>latest_reading\<close> and unlocks, the
  reading \<open>r\<close> it holds is, in all six words, the reading the sampler published last
  before that moment (the zero reading if it has not published yet): never words of two
  different readings.
\<close>

theorem no_torn_read:
  assumes "initial s0" and "log (run ready sched s0) = before @ Unlocked Web r # after"
  shows "r = last_published before"
proof -
  have "sys_inv (run ready sched s0)" using assms(1) by (simp add: inv_initial inv_run)
  then have "reads_ok_from zero_reading (before @ Unlocked Web r # after)"
    using assms(2) by (simp add: sys_inv_def)
  then show ?thesis unfolding last_published_def by (rule reads_ok_from_split)
qed

theorem no_torn_read_witness:
  "initial boot \<and>
   log (run True contended_schedule boot) = contended_log @ Unlocked Web example_reading # [] \<and>
   example_reading = last_published contended_log"
  using no_torn_read [OF initial_boot, of True contended_schedule contended_log example_reading "[]"]
    initial_boot run_contended
  by simp

subsection \<open>The sensor is not ready\<close>

lemma unready_inv_initial: "initial s \<Longrightarrow> unready_inv s"
  by (simp add: initial_def unready_inv_def)

lemma unready_inv_sensor_step:
  assumes "unready_inv s"
  shows "unready_inv (sensor_step False i s)"
  using assms
  by (cases "s_pc s"; cases "w_pc s")
     (auto simp: unready_inv_def sensor_step_def log_action_def)

lemma format_response_zero_fits:
  "take 255 (format_response zero_reading) = format_response zero_reading"
proof -
  have "fractions_in_range zero_reading"
    by (simp add: fractions_in_range_def fraction_in_range_def zero_reading_def zero_value_def)
  then have "length (format_response zero_reading) \<le> 253" by (rule format_response_fits)
  then show ?thesis by simp
qed

lemma sent_zero_reading:
  "take (strlen (snprintf 256 (format_response zero_reading)))
     (snprintf 256 (format_response zero_reading)) = format_response zero_reading"
  by (simp add: strlen_response) (simp add: snprintf_def format_response_zero_fits)

lemma unready_inv_web_step:
  assumes "unready_inv s"
  shows "unready_inv (web_step i s)"
proof (cases "w_pc s")
  case W_start
  with assms show ?thesis
    by (auto simp: unready_inv_def web_step_def log_action_def)
next
  case W_accept
  with assms show ?thesis
    by (auto simp: unready_inv_def web_step_def log_action_def)
next
  case W_lock
  with assms show ?thesis
    by (cases "data_mutex s")
       (auto simp: unready_inv_def web_step_def log_action_def agree_0 dest: thread_other)
next
  case (W_copy k)
  with assms have k: "k \<le> 5" and a: "agree k (w_data s) zero_reading"
    and z: "shared s = zero_reading"
    by (simp_all add: unready_inv_def)
  show ?thesis
  proof (cases "k < 5")
    case True
    with assms W_copy z agree_copy_word [OF k a] show ?thesis
      by (auto simp: unready_inv_def web_step_def)
  next
    case False
    with k have "k = 5" by simp
    with assms W_copy z agree_copy_last [of "w_data s" zero_reading] a show ?thesis
      by (auto simp: unready_inv_def web_step_def)
  qed
next
  case W_unlock
  with assms show ?thesis
    by (auto simp: unready_inv_def web_step_def log_action_def)
next
  case W_send
  with assms show ?thesis
    by (auto simp: unready_inv_def web_step_def Let_def log_action_def sent_zero_reading)
next
  case W_send_503
  with assms show ?thesis
    by (auto simp: unready_inv_def web_step_def log_action_def)
next
  case W_close
  with assms show ?thesis
    by (auto simp: unready_inv_def web_step_def log_action_def)
qed

lemma unready_inv_step: "unready_inv s \<Longrightarrow> unready_inv (step False m s)"
  by (cases m; cases "fst m") (auto simp: unready_inv_sensor_step unready_inv_web_step)

lemma unready_inv_run: "unready_inv s \<Longrightarrow> unready_inv (run False sched s)"
  by (induction sched arbitrary: s) (simp_all add: unready_inv_step)

lemma unready_inv_log: "unready_inv s \<Longrightarrow> a \<in> set (log s) \<Longrightarrow> unready_ok a"
  by (simp add: unready_inv_def list_all_iff)

lemma unready_inv_lock_free: "unready_inv s \<Longrightarrow> w_pc s = W_lock \<Longrightarrow> data_mutex s = None"
  by (cases "data_mutex s") (auto simp: unready_inv_def dest: thread_other)

lemma unready_inv_sensor_pc: "unready_inv s \<Longrightarrow> s_pc s = S_start \<or> s_pc s = S_returned"
  by (cases "s_pc s") (simp_all add: unready_inv_def)

lemma digits_0: "digits 0 = ''0''"
  by (simp add: digits.simps digit_char_def)

lemma fmt_value_zero: "fmt_value zero_value = ''0.000000''"
  by (simp add: fmt_value_def zero_value_def fmt_d_def fmt_06d_def zero_pad_def digits_0
      eval_nat_numeral)

lemma format_response_zero:
  "format_response zero_reading =
     ''HTTP/1.1 200 OK'' @ [CHR 0x0D, CHR 0x0A] @ ''Content-Type: text/html'' @
     [CHR 0x0D, CHR 0x0A, CHR 0x0D, CHR 0x0A] @
     ''<html><head><title>Weather Station</title></head><body><h1>Weather Station</h1>'' @
     ''<p>Temperature: 0.000000 C</p><p>Pressure: 0.000000 kPa</p>'' @
     ''<p>Humidity: 0.000000 %</p></body></html>''"
  by (simp add: format_response_def http_200_head_def html_body_def CRLF_def zero_reading_def
      fmt_value_zero)

lemma run_append: "run ready (a @ b) s = run ready b (run ready a s)"
  by (induction a arbitrary: s) simp_all

lemma run_unready_prefix:
  "w_pc (run False unready_prefix boot) = W_lock \<and> s_pc (run False unready_prefix boot) = S_returned"
  by (simp add: unready_prefix_def boot_def sample_1_def run_simps)

lemma run_unready:
  "log (run False unready_schedule boot) =
     [Call Socket, Call (Bind 3 80), Call (Listen 3 5),
      Call (Log_inf ''Web server listening on port 80''),
      Call (Log_err ''BME280 device not ready''),
      Call (Accept 3), Locked Web, Unlocked Web zero_reading,
      Call (Send 4 (format_response zero_reading)),
      Call (Close 4)]"
  by (simp add: unready_schedule_def unready_prefix_def boot_def sample_1_def sample_2_def
      run_simps max_reading_def zero_reading_def zero_value_def
      sent_zero_reading [unfolded zero_reading_def zero_value_def] Let_def
      fmt_d_80 WEB_SERVER_PORT_def)

text \<open>
  Claim C5. When the device is not ready, \<open>sensor_thread\<close> logs the error and returns
  without running a cycle, whatever the sensor would have delivered, and a handler run
  after it sends the 200 response of the zero reading. With the other thread running
  under any schedule: \<open>latest_reading\<close> stays the zero reading, the sampler is at its
  first line or has returned and never samples or takes the mutex, the handler finds the
  mutex free whenever it asks for it and never times out, and every response sent is the
  200 response of the zero reading.
\<close>

theorem sensor_not_ready:
  "sensor_thread False data0 ins w =
     Returned (w\<lparr>trace := trace w @ [Log_err ''BME280 device not ready'']\<rparr>) \<and>
   (latest_reading w = zero_reading \<longrightarrow>
      trace (handle_client 0 send_rc client (the_world (sensor_thread False data0 ins w))) =
        trace w @ [Log_err ''BME280 device not ready'',
                   K_mutex_lock 500, K_mutex_unlock, Send client zero_response, Close client]) \<and>
   (initial s0 \<longrightarrow>
      shared (run False sched s0) = zero_reading \<and>
      (s_pc (run False sched s0) = S_start \<or> s_pc (run False sched s0) = S_returned) \<and>
      (w_pc (run False sched s0) = W_lock \<longrightarrow> data_mutex (run False sched s0) = None) \<and>
      (\<forall>d. Sampled d \<notin> set (log (run False sched s0))) \<and>
      Locked Sensor \<notin> set (log (run False sched s0)) \<and>
      Timed_out Web \<notin> set (log (run False sched s0)) \<and>
      (\<forall>c b. Call (Send c b) \<in> set (log (run False sched s0)) \<longrightarrow> b = zero_response))"
proof (intro conjI impI allI)
  show "sensor_thread False data0 ins w =
     Returned (w\<lparr>trace := trace w @ [Log_err ''BME280 device not ready'']\<rparr>)"
    by (simp add: sensor_thread_def emit_def)
next
  assume z: "latest_reading w = zero_reading"
  have "the_world (sensor_thread False data0 ins w) =
          w\<lparr>trace := trace w @ [Log_err ''BME280 device not ready'']\<rparr>"
    by (simp add: sensor_thread_def emit_def)
  then show "trace (handle_client 0 send_rc client (the_world (sensor_thread False data0 ins w))) =
        trace w @ [Log_err ''BME280 device not ready'',
                   K_mutex_lock 500, K_mutex_unlock, Send client zero_response, Close client]"
    using z
    by (simp add: handle_client_trace_ok format_response_zero_fits)
       (simp add: format_response_zero zero_response_def)
next
  assume "initial s0"
  then have u: "unready_inv (run False sched s0)"
    by (simp add: unready_inv_initial unready_inv_run)
  show "shared (run False sched s0) = zero_reading"
    using u by (simp add: unready_inv_def)
  show "s_pc (run False sched s0) = S_start \<or> s_pc (run False sched s0) = S_returned"
    using u by (rule unready_inv_sensor_pc)
  show "Locked Sensor \<notin> set (log (run False sched s0))"
    using unready_inv_log [OF u, of "Locked Sensor"] by auto
  show "Timed_out Web \<notin> set (log (run False sched s0))"
    using unready_inv_log [OF u, of "Timed_out Web"] by auto
  show "Sampled d \<notin> set (log (run False sched s0))" for d
    using unready_inv_log [OF u, of "Sampled d"] by auto
  show "b = zero_response" if "Call (Send c b) \<in> set (log (run False sched s0))" for c b
    using unready_inv_log [OF u that] by (simp add: format_response_zero zero_response_def)
  show "data_mutex (run False sched s0) = None" if "w_pc (run False sched s0) = W_lock"
    using u that by (rule unready_inv_lock_free)
qed

theorem sensor_not_ready_witness:
  "initial boot \<and>
   shared (run False unready_schedule boot) = zero_reading \<and>
   Call (Send 4 zero_response) \<in> set (log (run False unready_schedule boot)) \<and>
   w_pc (run False unready_prefix boot) = W_lock \<and>
   data_mutex (run False unready_prefix boot) = None \<and>
   trace (handle_client 0 0 4
            (the_world (sensor_thread False min_reading []
                          \<lparr>latest_reading = zero_reading, trace = []\<rparr>))) =
     [Log_err ''BME280 device not ready'',
      K_mutex_lock 500, K_mutex_unlock, Send 4 zero_response, Close 4]"
proof -
  let ?w = "\<lparr>latest_reading = zero_reading, trace = []\<rparr>"
  note t = sensor_not_ready [of min_reading "[]" ?w 0 4 boot unready_schedule]
  note p = sensor_not_ready [of min_reading "[]" ?w 0 4 boot unready_prefix]
  have m: "Call (Send 4 (format_response zero_reading)) \<in> set (log (run False unready_schedule boot))"
    by (simp add: run_unready)
  from t initial_boot have a: "shared (run False unready_schedule boot) = zero_reading"
    by blast
  from t initial_boot m have "format_response zero_reading = zero_response"
    by blast
  with m have b: "Call (Send 4 zero_response) \<in> set (log (run False unready_schedule boot))"
    by simp
  have c: "w_pc (run False unready_prefix boot) = W_lock"
    using run_unready_prefix by simp
  from p initial_boot c have d: "data_mutex (run False unready_prefix boot) = None"
    by blast
  have "latest_reading ?w = zero_reading" by simp
  with t have "trace (handle_client 0 0 4 (the_world (sensor_thread False min_reading [] ?w))) =
        trace ?w @ [Log_err ''BME280 device not ready'',
                    K_mutex_lock 500, K_mutex_unlock, Send 4 zero_response, Close 4]"
    by blast
  then have e: "trace (handle_client 0 0 4 (the_world (sensor_thread False min_reading [] ?w))) =
     [Log_err ''BME280 device not ready'',
      K_mutex_lock 500, K_mutex_unlock, Send 4 zero_response, Close 4]"
    by simp
  from initial_boot a b c d e show ?thesis by blast
qed

subsection \<open>The step model against the sequential functions\<close>

text \<open>
  When nothing interleaves, the steps of the handler from its lock attempt back to
  \<^verbatim>\<open>accept\<close> make the calls of \<open>handle_client\<close>, on the free mutex and on a timeout, and
  the steps of one sampling cycle make the calls of \<open>sensor_cycle\<close> and store what it
  stores.
\<close>

lemma web_steps_handle_client:
  assumes "w_pc s = W_lock" and "data_mutex s = None"
  shows "w_pc (run ready (handler_steps i) s) = W_accept \<and>
         concat (map calls (drop (length (log s)) (log (run ready (handler_steps i) s)))) =
           trace (handle_client 0 send_rc (w_client s) \<lparr>latest_reading = shared s, trace = []\<rparr>)"
  using assms
  by (simp add: handler_steps_def web_step_def log_action_def copy_all_Suc Let_def
      handle_client_def emit_def)

lemma web_steps_handle_client_timeout:
  assumes "w_pc s = W_lock" and "data_mutex s = Some Sensor" and "in_timeout i" and "rc \<noteq> 0"
  shows "w_pc (run ready (handler_timeout_steps i) s) = W_accept \<and>
         concat (map calls (drop (length (log s)) (log (run ready (handler_timeout_steps i) s)))) =
           trace (handle_client rc send_rc (w_client s) \<lparr>latest_reading = shared s, trace = []\<rparr>)"
  using assms
  by (simp add: handler_timeout_steps_def web_step_def log_action_def Let_def
      handle_client_def emit_def)

lemma sensor_steps_sensor_cycle:
  assumes "s_pc s = S_fetch" and "data_mutex s = None"
  shows "s_pc (run True (cycle_steps i) s) = S_fetch \<and>
         shared (run True (cycle_steps i) s) =
           latest_reading (snd (sensor_cycle (cycle_of i 0)
                                  (s_data s, \<lparr>latest_reading = shared s, trace = []\<rparr>))) \<and>
         s_data (run True (cycle_steps i) s) =
           fst (sensor_cycle (cycle_of i 0) (s_data s, \<lparr>latest_reading = shared s, trace = []\<rparr>)) \<and>
         concat (map calls (drop (length (log s)) (log (run True (cycle_steps i) s)))) =
           trace (snd (sensor_cycle (cycle_of i 0)
                         (s_data s, \<lparr>latest_reading = shared s, trace = []\<rparr>)))"
  using assms sensor_cycle_published [of i "s_data s" "\<lparr>latest_reading = shared s, trace = []\<rparr>"]
  by (simp add: cycle_steps_def sensor_step_def log_action_def copy_all_Suc)


end
